theory Spec2Isabelle
  imports Main "HOL-Library.Word" "HOL-Library.Signed_Division"
begin

section \<open>The SDL tutorial programs: data model\<close>

text \<open>
  The repository holds three translation units, each with its own \<open>main\<close>:
  \<^item> \<^verbatim>\<open>src/unnamed/part_000\<close> and \<^verbatim>\<open>src/sdl-test/main.cpp\<close>: one image, stretched
    over the window. Their \<open>main\<close> functions are statement for statement the same
    (the second file only adds comments and two helper functions that its \<open>main\<close>
    never calls), so one definition, \<open>main_single\<close>, embeds both.
  \<^item> \<^verbatim>\<open>src/unnamed/part_001\<close>: a background tiled four times and a centred foreground,
    embedded as \<open>main_two\<close>, with its helpers \<open>LogSDLError\<close>, \<open>loadTexture\<close> and
    \<open>RenderTexture\<close>.

  The programs are straight-line sequences of calls into the SDL library. The library is
  not part of the repository: it is a parameter of the model. What the programs do is
  recorded as the sequence of calls they make (with the arguments they pass and the
  results they get) and the text they write to the two output streams.
\<close>

subsection \<open>Values\<close>

text \<open>A C \<open>int\<close> is 32 bits wide; \<open>sint\<close> reads it.\<close>

type_synonym c_int = "32 word"

text \<open>
  C's \<open>/\<close> on \<open>int\<close> truncates towards zero (\<open>sdiv\<close> on the signed readings);
  the result is stored back in 32 bits.
\<close>

definition c_div :: "c_int \<Rightarrow> c_int \<Rightarrow> c_int" where
  "c_div a b = word_of_int (sint a sdiv sint b)"

text \<open>
  Every SDL object is handled through a pointer. \<open>None\<close> is the null pointer,
  \<open>Some a\<close> a pointer to the object at address \<open>a\<close>.
\<close>

type_synonym ptr = "nat option"

text \<open>The flag macros of the SDL headers, kept symbolic.\<close>

datatype sdl_flag =
    SDL_INIT_VIDEO
  | SDL_WINDOW_SHOWN
  | SDL_RENDERER_ACCELERATED
  | SDL_RENDERER_PRESENTVSYNC

text \<open>
  \<open>SDL_Rect\<close> has four \<open>int\<close> fields. A local \<open>SDL_Rect\<close> that is declared without
  an initialiser holds indeterminate values: a field is \<open>None\<close> until it is assigned.
\<close>

record SDL_Rect =
  rect_x :: "c_int option"
  rect_y :: "c_int option"
  rect_w :: "c_int option"
  rect_h :: "c_int option"

definition uninitialised_rect :: SDL_Rect where
  "uninitialised_rect = \<lparr>rect_x = None, rect_y = None, rect_w = None, rect_h = None\<rparr>"

text \<open>
  A pointer to an \<open>int\<close> that lives inside an object of type \<open>'s\<close> (a field of a
  rectangle, a local variable of a stack frame) is modelled by the assignment through it.
  Two pointers to the same \<open>int\<close> are the same assignment.
\<close>

type_synonym 's int_ptr = "c_int \<Rightarrow> 's \<Rightarrow> 's"

definition addr_rect_x :: "SDL_Rect int_ptr" where
  "addr_rect_x v r = r\<lparr>rect_x := Some v\<rparr>"

definition addr_rect_y :: "SDL_Rect int_ptr" where
  "addr_rect_y v r = r\<lparr>rect_y := Some v\<rparr>"

definition addr_rect_w :: "SDL_Rect int_ptr" where
  "addr_rect_w v r = r\<lparr>rect_w := Some v\<rparr>"

definition addr_rect_h :: "SDL_Rect int_ptr" where
  "addr_rect_h v r = r\<lparr>rect_h := Some v\<rparr>"

text \<open>The exit statuses of \<open>main\<close>.\<close>

text \<open>
  Modelled from the spec: the macros \<open>EXIT_SUCCESS\<close> and \<open>EXIT_FAILURE\<close> come from the
  C standard library, not from the repository. The spec asks for a success code and a
  distinct failure code; the usual values are taken.
\<close>

definition EXIT_SUCCESS :: int where
  "EXIT_SUCCESS = 0"

definition EXIT_FAILURE :: int where
  "EXIT_FAILURE = 1"

subsection \<open>The library\<close>

text \<open>
  The library is a record of its entry points that return something. A run of one of
  the programs is single-threaded, so what the library answers can depend on everything
  that happened before: each entry point takes the number of events recorded so far (the
  time of the call) next to the arguments the claims depend on.
  \<^item> \<open>SDL_Init\<close> returns 0 on success.
  \<^item> The creation functions and \<open>SDL_LoadBMP\<close> return a pointer, null on failure.
  \<^item> \<open>SDL_QueryTexture\<close> yields the texture's width and height, or fails (\<open>None\<close>,
    for a pointer that is no texture). The size of a texture is fixed when it is
    created, so this answer depends on the texture only.
  \<^item> \<open>SDL_GetError\<close> returns the text of the last error.
\<close>

record library =
  SDL_Init :: "nat \<Rightarrow> sdl_flag list \<Rightarrow> c_int"
  SDL_CreateWindow :: "nat \<Rightarrow> string \<Rightarrow> ptr"
  SDL_CreateRenderer :: "nat \<Rightarrow> ptr \<Rightarrow> ptr"
  SDL_LoadBMP :: "nat \<Rightarrow> string \<Rightarrow> ptr"
  SDL_CreateTextureFromSurface :: "nat \<Rightarrow> ptr \<Rightarrow> ptr \<Rightarrow> ptr"
  SDL_QueryTexture :: "ptr \<Rightarrow> (c_int \<times> c_int) option"
  SDL_GetError :: "nat \<Rightarrow> string"

text \<open>
  \<open>SDL_QueryTexture (texture, NULL, NULL, w, h)\<close> writes through its out-parameters:
  on success the width through \<open>w\<close> and then the height through \<open>h\<close>; on failure
  nothing. When both pointers are the same \<open>int\<close>, the height is what stays.
\<close>

definition query_store ::
  "(c_int \<times> c_int) option \<Rightarrow> 's int_ptr \<Rightarrow> 's int_ptr \<Rightarrow> 's \<Rightarrow> 's" where
  "query_store q w h s =
     (case q of None \<Rightarrow> s | Some (tw, th) \<Rightarrow> h th (w tw s))"

subsection \<open>Events and the program state\<close>

text \<open>
  One event per library call, with the arguments passed and the result returned.
  \<open>Enter_RenderTexture\<close> records a call of the program's own \<open>RenderTexture\<close> with
  its arguments: the callee overwrites the position it is given, so the position the
  caller computed is visible only here.
\<close>

datatype event =
    Init "sdl_flag list" c_int
  | CreateWindow string c_int c_int c_int c_int "sdl_flag list" ptr
  | CreateRenderer ptr c_int "sdl_flag list" ptr
  | LoadBMP string ptr
  | CreateTextureFromSurface ptr ptr ptr
  | FreeSurface ptr
  | QueryTexture ptr "(c_int \<times> c_int) option"
  | RenderClear ptr
  | RenderCopy ptr ptr "SDL_Rect option" "SDL_Rect option"
  | RenderPresent ptr
  | Delay "32 word"
  | DestroyTexture ptr
  | DestroyRenderer ptr
  | DestroyWindow ptr
  | Quit
  | GetError string
  | Enter_RenderTexture ptr ptr c_int c_int

datatype ostream = std_cout | std_cerr

record state =
  trace :: "event list"
  cout :: string
  cerr :: string

definition initial_state :: state where
  "initial_state = \<lparr>trace = [], cout = [], cerr = []\<rparr>"

definition now :: "state \<Rightarrow> nat" where
  "now st = length (trace st)"

definition call :: "event \<Rightarrow> state \<Rightarrow> state" where
  "call e st = st\<lparr>trace := trace st @ [e]\<rparr>"

text \<open>\<open>os << text\<close>.\<close>

definition put :: "ostream \<Rightarrow> string \<Rightarrow> state \<Rightarrow> state" where
  "put os s st =
     (case os of
        std_cout \<Rightarrow> st\<lparr>cout := cout st @ s\<rparr>
      | std_cerr \<Rightarrow> st\<lparr>cerr := cerr st @ s\<rparr>)"

definition newline :: string where
  "newline = [CHR 0x0A]"

section \<open>The helper functions of the two-texture program\<close>

definition SCREEN_WIDTH :: c_int where
  "SCREEN_WIDTH = 640"

definition SCREEN_HEIGHT :: c_int where
  "SCREEN_HEIGHT = 480"

text \<open>\<open>os << errorMessage << " error: " << SDL_GetError() << '\n'\<close>\<close>

definition LogSDLError :: "library \<Rightarrow> ostream \<Rightarrow> string \<Rightarrow> state \<Rightarrow> state" where
  "LogSDLError sdl os errorMessage st =
     (let e = SDL_GetError sdl (now st);
          st = call (GetError e) st
      in put os (errorMessage @ '' error: '' @ e @ newline) st)"

definition loadTexture :: "library \<Rightarrow> string \<Rightarrow> ptr \<Rightarrow> state \<Rightarrow> ptr \<times> state" where
  "loadTexture sdl filename renderer st =
     (let texture = None;
          loadedImage = SDL_LoadBMP sdl (now st) filename;
          st = call (LoadBMP filename loadedImage) st
      in if loadedImage \<noteq> None then
           (let texture = SDL_CreateTextureFromSurface sdl (now st) renderer loadedImage;
                st = call (CreateTextureFromSurface renderer loadedImage texture) st;
                st = call (FreeSurface loadedImage) st
            in if texture = None
               then (texture, LogSDLError sdl std_cerr ''LoadBMP'' st)
               else (texture, st))
         else (texture, LogSDLError sdl std_cerr ''LoadBMP'' st))"

text \<open>
  What one call of \<open>loadTexture\<close> records and writes, as a function of what the
  library answered: the decoded buffer \<open>surf\<close>, the texture, the error text.
\<close>

definition load_events :: "string \<Rightarrow> ptr \<Rightarrow> ptr \<Rightarrow> ptr \<Rightarrow> string \<Rightarrow> event list" where
  "load_events file renderer surf texture e =
     LoadBMP file surf #
     (if surf = None then []
      else [CreateTextureFromSurface renderer surf texture, FreeSurface surf]) @
     (if texture = None then [GetError e] else [])"

definition load_errors :: "ptr \<Rightarrow> string \<Rightarrow> string" where
  "load_errors texture e = (if texture = None then ''LoadBMP error: '' @ e @ newline else [])"

text \<open>
  \<open>destination\<close> is declared without an initialiser; \<open>x\<close> and \<open>y\<close> are assigned, then
  the query is given the addresses of \<open>destination.w\<close> and of \<open>destination.x\<close>.
\<close>

definition RenderTexture ::
  "library \<Rightarrow> ptr \<Rightarrow> ptr \<Rightarrow> c_int \<Rightarrow> c_int \<Rightarrow> state \<Rightarrow> state" where
  "RenderTexture sdl texture renderer x y st =
     (let st = call (Enter_RenderTexture texture renderer x y) st;
          destination = uninitialised_rect;
          destination = addr_rect_x x destination;
          destination = addr_rect_y y destination;
          q = SDL_QueryTexture sdl texture;
          st = call (QueryTexture texture q) st;
          destination = query_store q addr_rect_w addr_rect_x destination
      in call (RenderCopy renderer texture None (Some destination)) st)"

section \<open>The two-texture program\<close>

text \<open>The \<open>int\<close> locals of the loop body, each initialised to 0 where it is declared.\<close>

record frame_locals =
  var_bW :: c_int
  var_bH :: c_int
  var_iW :: c_int
  var_iH :: c_int

definition addr_bW :: "frame_locals int_ptr" where
  "addr_bW v l = l\<lparr>var_bW := v\<rparr>"

definition addr_bH :: "frame_locals int_ptr" where
  "addr_bH v l = l\<lparr>var_bH := v\<rparr>"

definition addr_iW :: "frame_locals int_ptr" where
  "addr_iW v l = l\<lparr>var_iW := v\<rparr>"

definition addr_iH :: "frame_locals int_ptr" where
  "addr_iH v l = l\<lparr>var_iH := v\<rparr>"

text \<open>
  The body of the \<open>for\<close> loop. The first query is given \<open>&bW\<close> twice; \<open>bH\<close> keeps
  the 0 it was initialised with.
\<close>

definition frame_two :: "library \<Rightarrow> ptr \<Rightarrow> ptr \<Rightarrow> ptr \<Rightarrow> state \<Rightarrow> state" where
  "frame_two sdl renderer background foreground st =
     (let st = call (RenderClear renderer) st;
          l = \<lparr>var_bW = 0, var_bH = 0, var_iW = 0, var_iH = 0\<rparr>;
          q = SDL_QueryTexture sdl background;
          st = call (QueryTexture background q) st;
          l = query_store q addr_bW addr_bW l;
          st = RenderTexture sdl background renderer 0 0 st;
          st = RenderTexture sdl background renderer (var_bW l) 0 st;
          st = RenderTexture sdl background renderer 0 (var_bH l) st;
          st = RenderTexture sdl background renderer (var_bW l) (var_bH l) st;
          q = SDL_QueryTexture sdl foreground;
          st = call (QueryTexture foreground q) st;
          l = query_store q addr_iW addr_iH l;
          x = c_div SCREEN_WIDTH 2 - c_div (var_iW l) 2;
          y = c_div SCREEN_HEIGHT 2 - c_div (var_iH l) 2;
          st = RenderTexture sdl foreground renderer x y st;
          st = call (RenderPresent renderer) st
      in call (Delay 1000) st)"

text \<open>\<open>for (auto i = 0; i < 3; i++)\<close>\<close>

function loop_two :: "library \<Rightarrow> ptr \<Rightarrow> ptr \<Rightarrow> ptr \<Rightarrow> int \<Rightarrow> state \<Rightarrow> state" where
  "loop_two sdl renderer background foreground i st =
     (if i < 3
      then loop_two sdl renderer background foreground (i + 1)
             (frame_two sdl renderer background foreground st)
      else st)"
  by pat_completeness auto
termination
  by (relation "measure (\<lambda>(sdl, renderer, background, foreground, i, st). nat (3 - i))") auto

declare loop_two.simps [simp del]

text \<open>
  The events of one frame and of the whole loop. What the library answers to a query
  does not depend on the time, so they are the same from any state.
\<close>

definition frame_two_events :: "library \<Rightarrow> ptr \<Rightarrow> ptr \<Rightarrow> ptr \<Rightarrow> event list" where
  "frame_two_events sdl renderer background foreground =
     trace (frame_two sdl renderer background foreground initial_state)"

definition loop_two_events :: "library \<Rightarrow> ptr \<Rightarrow> ptr \<Rightarrow> ptr \<Rightarrow> event list" where
  "loop_two_events sdl renderer background foreground =
     trace (loop_two sdl renderer background foreground 0 initial_state)"

text \<open>
  The two file names. In the C++ literals the path separator is written as an escaped
  backslash, which is one character (code 0x5C) of the string.
\<close>

definition img_path :: "string \<Rightarrow> string" where
  "img_path name =
     ''C:'' @ concat (map (\<lambda>c. CHR 0x5C # c)
       [''Users'', ''jflop'', ''source'', ''repos'', ''sdl-test'', ''sdl-test'', ''img'', name])"

definition background_bmp :: string where
  "background_bmp = img_path ''background.bmp''"

definition foreground_bmp :: string where
  "foreground_bmp = img_path ''foreground.bmp''"

definition main_two :: "library \<Rightarrow> c_int \<Rightarrow> string list \<Rightarrow> int \<times> state" where
  "main_two sdl argc argv =
     (let st = initial_state;
          rc = SDL_Init sdl (now st) [SDL_INIT_VIDEO];
          st = call (Init [SDL_INIT_VIDEO] rc) st
      in if rc \<noteq> 0 then
           (let st = LogSDLError sdl std_cerr ''SDL_Init'' st
            in (EXIT_FAILURE, st))
         else
     (let mainWindow = SDL_CreateWindow sdl (now st) ''Hello, World!'';
          st = call (CreateWindow ''Hello, World!'' 100 100 SCREEN_WIDTH SCREEN_HEIGHT
                       [SDL_WINDOW_SHOWN] mainWindow) st
      in if mainWindow = None then
           (let st = LogSDLError sdl std_cerr ''CreateWindow'' st;
                st = call Quit st
            in (EXIT_FAILURE, st))
         else
     (let renderer = SDL_CreateRenderer sdl (now st) mainWindow;
          st = call (CreateRenderer mainWindow (- 1)
                       [SDL_RENDERER_ACCELERATED, SDL_RENDERER_PRESENTVSYNC] renderer) st
      in if renderer = None then
           (let st = call (DestroyWindow mainWindow) st;
                st = LogSDLError sdl std_cerr ''CreateRenderer'' st;
                st = call Quit st
            in (EXIT_FAILURE, st))
         else
     (let (background, st) = loadTexture sdl background_bmp renderer st;
          (foreground, st) = loadTexture sdl foreground_bmp renderer st
      in if background = None \<or> foreground = None then
           (let st = call (DestroyRenderer renderer) st;
                st = call (DestroyWindow mainWindow) st;
                st = LogSDLError sdl std_cerr ''LoadTexture'' st;
                st = call Quit st
            in (EXIT_FAILURE, st))
         else
     (let st = loop_two sdl renderer background foreground 0 st;
          st = call (DestroyTexture background) st;
          st = call (DestroyTexture foreground) st;
          st = call (DestroyRenderer renderer) st;
          st = call (DestroyWindow mainWindow) st;
          st = call Quit st
      in (EXIT_SUCCESS, st))))))"

section \<open>The single-texture program\<close>

definition swirl_bmp :: string where
  "swirl_bmp = ''C:/Users/jflop/Downloads/swirl_effect.bmp''"

text \<open>\<open>std::cout << what << SDL_GetError() << '\n'\<close>, as \<open>main\<close> writes it inline.\<close>

definition cout_error :: "library \<Rightarrow> string \<Rightarrow> state \<Rightarrow> state" where
  "cout_error sdl what st =
     (let e = SDL_GetError sdl (now st);
          st = call (GetError e) st
      in put std_cout (what @ e @ newline) st)"

definition frame_single :: "ptr \<Rightarrow> ptr \<Rightarrow> state \<Rightarrow> state" where
  "frame_single renderer texture st =
     (let st = call (RenderClear renderer) st;
          st = call (RenderCopy renderer texture None None) st;
          st = call (RenderPresent renderer) st
      in call (Delay 1000) st)"

text \<open>\<open>for (auto i = 0; i < 3; ++i)\<close>\<close>

function loop_single :: "ptr \<Rightarrow> ptr \<Rightarrow> int \<Rightarrow> state \<Rightarrow> state" where
  "loop_single renderer texture i st =
     (if i < 3
      then loop_single renderer texture (i + 1) (frame_single renderer texture st)
      else st)"
  by pat_completeness auto
termination
  by (relation "measure (\<lambda>(renderer, texture, i, st). nat (3 - i))") auto

declare loop_single.simps [simp del]

definition main_single :: "library \<Rightarrow> c_int \<Rightarrow> string list \<Rightarrow> int \<times> state" where
  "main_single sdl argc argv =
     (let st = initial_state;
          rc = SDL_Init sdl (now st) [SDL_INIT_VIDEO];
          st = call (Init [SDL_INIT_VIDEO] rc) st
      in if rc \<noteq> 0 then
           (let st = cout_error sdl ''SDL_Init Error: '' st
            in (EXIT_FAILURE, st))
         else
     (let mainWindow = SDL_CreateWindow sdl (now st) ''Hello, World!'';
          st = call (CreateWindow ''Hello, World!'' 100 100 640 480
                       [SDL_WINDOW_SHOWN] mainWindow) st
      in if mainWindow = None then
           (let st = cout_error sdl ''SDL_CreateWindow Error: '' st;
                st = call Quit st
            in (EXIT_FAILURE, st))
         else
     (let renderer = SDL_CreateRenderer sdl (now st) mainWindow;
          st = call (CreateRenderer mainWindow (- 1)
                       [SDL_RENDERER_ACCELERATED, SDL_RENDERER_PRESENTVSYNC] renderer) st
      in if renderer = None then
           (let st = call (DestroyWindow mainWindow) st;
                st = cout_error sdl ''SDL_CreateRenderer Error: '' st;
                st = call Quit st
            in (EXIT_FAILURE, st))
         else
     (let imagePath = swirl_bmp;
          bmp = SDL_LoadBMP sdl (now st) imagePath;
          st = call (LoadBMP imagePath bmp) st
      in if bmp = None then
           (let st = call (DestroyRenderer renderer) st;
                st = call (DestroyWindow mainWindow) st;
                st = cout_error sdl ''SDL_LoadBMP Error: '' st;
                st = call Quit st
            in (EXIT_FAILURE, st))
         else
     (let texture = SDL_CreateTextureFromSurface sdl (now st) renderer bmp;
          st = call (CreateTextureFromSurface renderer bmp texture) st;
          st = call (FreeSurface bmp) st
      in if texture = None then
           (let st = call (DestroyRenderer renderer) st;
                st = call (DestroyWindow mainWindow) st;
                st = cout_error sdl ''SDL_CreateTextureFromSurface Error: '' st;
                st = call Quit st
            in (EXIT_FAILURE, st))
         else
     (let st = loop_single renderer texture 0 st;
          st = call (DestroyTexture texture) st;
          st = call (DestroyRenderer renderer) st;
          st = call (DestroyWindow mainWindow) st;
          st = call Quit st
      in (EXIT_SUCCESS, st)))))))"

section \<open>Observations on a run\<close>

text \<open>
  The claims speak about what a run did: which handles it acquired, used and released,
  what it drew, what it wrote. These are read from the trace.
\<close>

subsection \<open>Handles\<close>

datatype handle =
    Session
  | Window ptr
  | Renderer ptr
  | Surface ptr
  | Texture ptr

text \<open>The handle an event creates, when the creation step reports success.\<close>

fun acquires :: "event \<Rightarrow> handle list" where
  "acquires (Init flags rc) = (if rc = 0 then [Session] else [])"
| "acquires (CreateWindow title px py pw ph flags p) = (if p = None then [] else [Window p])"
| "acquires (CreateRenderer window index flags p) = (if p = None then [] else [Renderer p])"
| "acquires (LoadBMP file p) = (if p = None then [] else [Surface p])"
| "acquires (CreateTextureFromSurface renderer surface p) =
     (if p = None then [] else [Texture p])"
| "acquires e = []"

text \<open>The handle an event releases.\<close>

fun releases :: "event \<Rightarrow> handle list" where
  "releases Quit = [Session]"
| "releases (DestroyWindow p) = [Window p]"
| "releases (DestroyRenderer p) = [Renderer p]"
| "releases (FreeSurface p) = [Surface p]"
| "releases (DestroyTexture p) = [Texture p]"
| "releases e = []"

text \<open>
  The handles an event is given. Creating a window and shutting down need the session;
  a call of \<open>RenderTexture\<close> is a use of the two handles it is passed.
\<close>

fun uses :: "event \<Rightarrow> handle list" where
  "uses (CreateWindow title px py pw ph flags r) = [Session]"
| "uses (CreateRenderer window index flags r) = [Window window]"
| "uses (CreateTextureFromSurface renderer surface r) = [Renderer renderer, Surface surface]"
| "uses (FreeSurface p) = [Surface p]"
| "uses (QueryTexture t q) = [Texture t]"
| "uses (RenderClear r) = [Renderer r]"
| "uses (RenderCopy r t src dst) = [Renderer r, Texture t]"
| "uses (RenderPresent r) = [Renderer r]"
| "uses (DestroyTexture p) = [Texture p]"
| "uses (DestroyRenderer p) = [Renderer p]"
| "uses (DestroyWindow p) = [Window p]"
| "uses Quit = [Session]"
| "uses (Enter_RenderTexture t r px py) = [Texture t, Renderer r]"
| "uses e = []"

definition acquired :: "event list \<Rightarrow> handle list" where
  "acquired tr = concat (map acquires tr)"

definition released :: "event list \<Rightarrow> handle list" where
  "released tr = concat (map releases tr)"

text \<open>
  Every handle an event is given was created, with success, by an earlier event.
  \<open>created\<close> holds the handles created so far.
\<close>

fun used_after_creation :: "handle list \<Rightarrow> event list \<Rightarrow> bool" where
  "used_after_creation created [] = True"
| "used_after_creation created (e # es) =
     (list_all (\<lambda>h. h \<in> set created) (uses e) \<and>
      used_after_creation (created @ acquires e) es)"

fun is_core :: "handle \<Rightarrow> bool" where
  "is_core Session = True"
| "is_core (Window p) = True"
| "is_core (Renderer p) = True"
| "is_core h = False"

fun is_surface :: "handle \<Rightarrow> bool" where
  "is_surface (Surface p) = True"
| "is_surface h = False"

fun is_texture :: "handle \<Rightarrow> bool" where
  "is_texture (Texture p) = True"
| "is_texture h = False"

text \<open>
  The discipline the spec states: nothing is used before it is created, and the
  handles are released once each, in the reverse of the order they were acquired in.
\<close>

definition released_in_reverse :: "event list \<Rightarrow> bool" where
  "released_in_reverse tr =
     (used_after_creation [] tr \<and> released tr = rev (acquired tr))"

fun is_window :: "handle \<Rightarrow> bool" where
  "is_window (Window p) = True"
| "is_window h = False"

text \<open>A step that reports failure: initialisation, a creation, a decode.\<close>

fun is_failed_step :: "event \<Rightarrow> bool" where
  "is_failed_step (Init flags rc) = (rc \<noteq> 0)"
| "is_failed_step (CreateWindow title px py pw ph flags p) = (p = None)"
| "is_failed_step (CreateRenderer window index flags p) = (p = None)"
| "is_failed_step (LoadBMP file p) = (p = None)"
| "is_failed_step (CreateTextureFromSurface renderer surface p) = (p = None)"
| "is_failed_step e = False"

definition all_steps_succeeded :: "event list \<Rightarrow> bool" where
  "all_steps_succeeded tr = (\<not> list_ex is_failed_step tr)"

fun is_failed_renderer :: "event \<Rightarrow> bool" where
  "is_failed_renderer (CreateRenderer window index flags p) = (p = None)"
| "is_failed_renderer e = False"

definition renderer_creation_failed :: "event list \<Rightarrow> bool" where
  "renderer_creation_failed tr = list_ex is_failed_renderer tr"

subsection \<open>The life of an image buffer\<close>

text \<open>
  A decoded buffer is transient: the very next call uploads it, and the call after that
  frees it. \<open>buffer_step\<close> follows one buffer through the trace and refuses
  (\<open>None\<close>) any other order: an upload or a free with no buffer decoded, an upload or a
  free of another buffer, any other event while a buffer is held.
\<close>

datatype buffer_phase = No_buffer | Decoded ptr | Uploaded ptr

fun buffer_step :: "buffer_phase \<Rightarrow> event \<Rightarrow> buffer_phase option" where
  "buffer_step No_buffer (LoadBMP file p) =
     Some (if p = None then No_buffer else Decoded p)"
| "buffer_step No_buffer (CreateTextureFromSurface r s t) = None"
| "buffer_step No_buffer (FreeSurface s) = None"
| "buffer_step No_buffer e = Some No_buffer"
| "buffer_step (Decoded p) (CreateTextureFromSurface r s t) =
     (if s = p then Some (Uploaded p) else None)"
| "buffer_step (Decoded p) e = None"
| "buffer_step (Uploaded p) (FreeSurface s) =
     (if s = p then Some No_buffer else None)"
| "buffer_step (Uploaded p) e = None"

text \<open>The whole trace keeps to this order, and ends with no buffer held.\<close>

fun buffers_from :: "buffer_phase \<Rightarrow> event list \<Rightarrow> bool" where
  "buffers_from phase [] = (phase = No_buffer)"
| "buffers_from phase (e # es) =
     (case buffer_step phase e of None \<Rightarrow> False | Some phase' \<Rightarrow> buffers_from phase' es)"

definition buffers_freed_after_upload :: "event list \<Rightarrow> bool" where
  "buffers_freed_after_upload tr = buffers_from No_buffer tr"

subsection \<open>The release discipline of the programs\<close>

text \<open>
  What the programs keep on every exit: nothing is used before it is created; the
  release calls are those of the buffers and textures, followed by those of the session,
  window and renderer acquired, in reverse order; every decoded buffer is released, and
  that right after the upload made from it.
\<close>

definition handles_released :: "event list \<Rightarrow> bool" where
  "handles_released tr =
     (used_after_creation [] tr \<and>
      released tr =
        filter (\<lambda>h. \<not> is_core h) (released tr) @ rev (filter is_core (acquired tr)) \<and>
      filter is_surface (released tr) = filter is_surface (acquired tr) \<and>
      buffers_freed_after_upload tr)"

text \<open>Every texture created is destroyed.\<close>

definition textures_released :: "event list \<Rightarrow> bool" where
  "textures_released tr =
     (filter is_texture (released tr) = filter is_texture (acquired tr))"

subsection \<open>Rendering\<close>

datatype render_op = Clear | Copy | Present | Pause "32 word"

fun render_op_of :: "event \<Rightarrow> render_op list" where
  "render_op_of (RenderClear r) = [Clear]"
| "render_op_of (RenderCopy r t src dst) = [Copy]"
| "render_op_of (RenderPresent r) = [Present]"
| "render_op_of (Delay ms) = [Pause ms]"
| "render_op_of e = []"

definition render_ops :: "event list \<Rightarrow> render_op list" where
  "render_ops tr = concat (map render_op_of tr)"

text \<open>One cycle of the frame loop with \<open>n\<close> copies.\<close>

definition cycle :: "nat \<Rightarrow> render_op list" where
  "cycle n = Clear # replicate n Copy @ [Present, Pause 1000]"

text \<open>The calls of \<open>RenderTexture\<close>: texture and position.\<close>

fun render_call_of :: "event \<Rightarrow> (ptr \<times> c_int \<times> c_int) list" where
  "render_call_of (Enter_RenderTexture t r px py) = [(t, px, py)]"
| "render_call_of e = []"

definition render_calls :: "event list \<Rightarrow> (ptr \<times> c_int \<times> c_int) list" where
  "render_calls tr = concat (map render_call_of tr)"

text \<open>The destination rectangles given to \<open>SDL_RenderCopy\<close>, with the texture.\<close>

fun copy_of :: "event \<Rightarrow> (ptr \<times> SDL_Rect option) list" where
  "copy_of (RenderCopy r t src dst) = [(t, dst)]"
| "copy_of e = []"

definition copies :: "event list \<Rightarrow> (ptr \<times> SDL_Rect option) list" where
  "copies tr = concat (map copy_of tr)"

subsection \<open>Decoding and uploading\<close>

fun is_failed_decode :: "event \<Rightarrow> bool" where
  "is_failed_decode (LoadBMP file p) = (p = None)"
| "is_failed_decode e = False"

fun is_upload :: "event \<Rightarrow> bool" where
  "is_upload (CreateTextureFromSurface r s t) = True"
| "is_upload e = False"

definition decode_failed :: "event list \<Rightarrow> bool" where
  "decode_failed tr = list_ex is_failed_decode tr"

text \<open>What follows the first failed decode.\<close>

definition after_failed_decode :: "event list \<Rightarrow> event list" where
  "after_failed_decode tr = dropWhile (\<lambda>e. \<not> is_failed_decode e) tr"

text \<open>An upload follows the first failed decode.\<close>

definition upload_after_failed_decode :: "event list \<Rightarrow> bool" where
  "upload_after_failed_decode tr = list_ex is_upload (after_failed_decode tr)"

text \<open>What follows the failed decode of one given file.\<close>

definition after_failed_decode_of :: "string \<Rightarrow> event list \<Rightarrow> event list" where
  "after_failed_decode_of file tr = dropWhile (\<lambda>e. e \<noteq> LoadBMP file None) tr"

text \<open>The buffers that were decoded, and the buffers that were given to an upload.\<close>

fun decoded_of :: "event \<Rightarrow> ptr list" where
  "decoded_of (LoadBMP file p) = (if p = None then [] else [p])"
| "decoded_of e = []"

fun uploaded_of :: "event \<Rightarrow> ptr list" where
  "uploaded_of (CreateTextureFromSurface r s t) = [s]"
| "uploaded_of e = []"

definition decoded :: "event list \<Rightarrow> ptr list" where
  "decoded tr = concat (map decoded_of tr)"

definition uploaded :: "event list \<Rightarrow> ptr list" where
  "uploaded tr = concat (map uploaded_of tr)"

text \<open>The files a decode was asked for, in order.\<close>

fun loaded_file_of :: "event \<Rightarrow> string list" where
  "loaded_file_of (LoadBMP file p) = [file]"
| "loaded_file_of e = []"

definition loaded_files :: "event list \<Rightarrow> string list" where
  "loaded_files tr = concat (map loaded_file_of tr)"

subsection \<open>Diagnostics\<close>

text \<open>The texts \<open>SDL_GetError\<close> returned, in order.\<close>

fun error_of :: "event \<Rightarrow> string list" where
  "error_of (GetError e) = [e]"
| "error_of e = []"

definition errors :: "event list \<Rightarrow> string list" where
  "errors tr = concat (map error_of tr)"

text \<open>The line the spec describes, for an operation and an error text.\<close>

definition diagnostic_line :: "string \<Rightarrow> string \<Rightarrow> string" where
  "diagnostic_line operation e = operation @ '' error: '' @ e @ newline"

text \<open>
  The spec's rule for the diagnostics of a run, given the operations that failed: nothing
  on standard output, and on standard error one line per operation, carrying the error
  texts the library returned, in order.
\<close>

definition diagnostics_on_cerr :: "string list \<Rightarrow> state \<Rightarrow> bool" where
  "diagnostics_on_cerr operations st =
     (cout st = [] \<and>
      length operations = length (errors (trace st)) \<and>
      cerr st = concat (map2 diagnostic_line operations (errors (trace st))))"


text \<open>
  The line the single-texture program writes, on standard output: its literals end in
  \<open>Error:\<close>, with a capital.
\<close>

definition cout_line :: "string \<Rightarrow> string \<Rightarrow> string" where
  "cout_line operation e = operation @ '' Error: '' @ e @ newline"

definition diagnostics_on_cout :: "string list \<Rightarrow> state \<Rightarrow> bool" where
  "diagnostics_on_cout operations st =
     (cerr st = [] \<and>
      length operations = length (errors (trace st)) \<and>
      cout st = concat (map2 cout_line operations (errors (trace st))))"

text \<open>The operation names in the diagnostics of either program.\<close>

definition operations_two :: "string list" where
  "operations_two =
     [''SDL_Init'', ''CreateWindow'', ''CreateRenderer'', ''LoadBMP'', ''LoadTexture'']"

definition operations_single :: "string list" where
  "operations_single =
     [''SDL_Init'', ''SDL_CreateWindow'', ''SDL_CreateRenderer'', ''SDL_LoadBMP'',
      ''SDL_CreateTextureFromSurface'']"

subsection \<open>What the library answers\<close>

text \<open>
  Both programs start with the same three calls, made when 0, 1 and 2 events have been
  recorded. \<open>reaches_loading\<close>: the library answers them with success, a window \<open>w\<close>
  and a renderer \<open>r\<close>. \<open>renderer_fails\<close>: it creates the window \<open>w\<close> and then no
  renderer.
\<close>

definition reaches_loading :: "library \<Rightarrow> ptr \<Rightarrow> ptr \<Rightarrow> bool" where
  "reaches_loading sdl w r =
     (SDL_Init sdl 0 [SDL_INIT_VIDEO] = 0 \<and>
      SDL_CreateWindow sdl 1 ''Hello, World!'' = w \<and> w \<noteq> None \<and>
      SDL_CreateRenderer sdl 2 w = r \<and> r \<noteq> None)"

definition renderer_fails :: "library \<Rightarrow> ptr \<Rightarrow> bool" where
  "renderer_fails sdl w =
     (SDL_Init sdl 0 [SDL_INIT_VIDEO] = 0 \<and>
      SDL_CreateWindow sdl 1 ''Hello, World!'' = w \<and> w \<noteq> None \<and>
      SDL_CreateRenderer sdl 2 w = None)"

section \<open>Concrete libraries\<close>

text \<open>
  Libraries to run the programs against. With \<open>lib_ok\<close> every step succeeds: the
  background is 100 by 50, the foreground 31 by 21.
\<close>

definition lib_ok :: library where
  "lib_ok =
     \<lparr>SDL_Init = (\<lambda>t flags. 0),
      SDL_CreateWindow = (\<lambda>t title. Some 1),
      SDL_CreateRenderer = (\<lambda>t window. Some 2),
      SDL_LoadBMP = (\<lambda>t file. if file = foreground_bmp then Some 5 else Some 3),
      SDL_CreateTextureFromSurface = (\<lambda>t renderer surface. map_option Suc surface),
      SDL_QueryTexture =
        (\<lambda>texture. if texture = Some 4 then Some (100, 50) else Some (31, 21)),
      SDL_GetError = (\<lambda>t. ''no error'')\<rparr>"

text \<open>Initialisation fails.\<close>

definition lib_no_init :: library where
  "lib_no_init = lib_ok\<lparr>SDL_Init := (\<lambda>t flags. - 1), SDL_GetError := (\<lambda>t. ''no video'')\<rparr>"

text \<open>The window is created, the renderer is not.\<close>

definition lib_no_renderer :: library where
  "lib_no_renderer =
     lib_ok\<lparr>SDL_CreateRenderer := (\<lambda>t window. None), SDL_GetError := (\<lambda>t. ''no driver'')\<rparr>"

text \<open>Only the foreground file can be decoded.\<close>

definition lib_no_background :: library where
  "lib_no_background =
     lib_ok\<lparr>SDL_LoadBMP := (\<lambda>t file. if file = foreground_bmp then Some 5 else None),
            SDL_GetError := (\<lambda>t. ''no file'')\<rparr>"

text \<open>Only the foreground file cannot be decoded.\<close>

definition lib_no_foreground :: library where
  "lib_no_foreground =
     lib_ok\<lparr>SDL_LoadBMP := (\<lambda>t file. if file = foreground_bmp then None else Some 3),
            SDL_GetError := (\<lambda>t. ''no file'')\<rparr>"

text \<open>Every file is decoded, no texture can be created.\<close>

definition lib_no_upload :: library where
  "lib_no_upload =
     lib_ok\<lparr>SDL_CreateTextureFromSurface := (\<lambda>t renderer surface. None),
            SDL_GetError := (\<lambda>t. ''no memory'')\<rparr>"


section \<open>Basic facts\<close>

lemma state_simps [simp]:
  "trace (call e st) = trace st @ [e]"
  "cout (call e st) = cout st"
  "cerr (call e st) = cerr st"
  "trace (put os s st) = trace st"
  "cout (put os s st) = (if os = std_cout then cout st @ s else cout st)"
  "cerr (put os s st) = (if os = std_cerr then cerr st @ s else cerr st)"
  by (simp_all add: call_def put_def split: ostream.splits)

text \<open>Both loops run their body three times.\<close>

lemma loop_single_unroll:
  "loop_single r t 0 st = frame_single r t (frame_single r t (frame_single r t st))"
  by (simp add: loop_single.simps)

lemma loop_two_unroll:
  "loop_two sdl r b f 0 st =
     frame_two sdl r b f (frame_two sdl r b f (frame_two sdl r b f st))"
  by (simp add: loop_two.simps)

lemma RenderTexture_trace:
  "trace (RenderTexture sdl texture renderer x y st) =
     trace st @
     [Enter_RenderTexture texture renderer x y,
      QueryTexture texture (SDL_QueryTexture sdl texture),
      RenderCopy renderer texture None
        (Some (query_store (SDL_QueryTexture sdl texture) addr_rect_w addr_rect_x
           \<lparr>rect_x = Some x, rect_y = Some y, rect_w = None, rect_h = None\<rparr>))]"
  "cout (RenderTexture sdl texture renderer x y st) = cout st"
  "cerr (RenderTexture sdl texture renderer x y st) = cerr st"
  by (simp_all add: RenderTexture_def Let_def uninitialised_rect_def
      addr_rect_x_def addr_rect_y_def)

text \<open>The observations are computed event by event.\<close>

lemma obs_simps [simp]:
  "acquired [] = []" "acquired (e # es) = acquires e @ acquired es"
  "acquired (xs @ ys) = acquired xs @ acquired ys"
  "released [] = []" "released (e # es) = releases e @ released es"
  "released (xs @ ys) = released xs @ released ys"
  "render_ops [] = []" "render_ops (e # es) = render_op_of e @ render_ops es"
  "render_ops (xs @ ys) = render_ops xs @ render_ops ys"
  "render_calls [] = []" "render_calls (e # es) = render_call_of e @ render_calls es"
  "render_calls (xs @ ys) = render_calls xs @ render_calls ys"
  "copies [] = []" "copies (e # es) = copy_of e @ copies es"
  "copies (xs @ ys) = copies xs @ copies ys"
  "decoded [] = []" "decoded (e # es) = decoded_of e @ decoded es"
  "decoded (xs @ ys) = decoded xs @ decoded ys"
  "uploaded [] = []" "uploaded (e # es) = uploaded_of e @ uploaded es"
  "uploaded (xs @ ys) = uploaded xs @ uploaded ys"
  "errors [] = []" "errors (e # es) = error_of e @ errors es"
  "errors (xs @ ys) = errors xs @ errors ys"
  by (simp_all add: acquired_def released_def render_ops_def render_calls_def copies_def
      decoded_def uploaded_def errors_def)

lemma used_after_creation_append:
  "used_after_creation c (xs @ ys) =
     (used_after_creation c xs \<and> used_after_creation (c @ acquired xs) ys)"
  by (induction xs arbitrary: c) auto

text \<open>The frame loop appends its events and writes nothing.\<close>

lemma frame_two_state:
  "frame_two sdl r b f st = st\<lparr>trace := trace st @ frame_two_events sdl r b f\<rparr>"
  by (simp add: frame_two_events_def frame_two_def Let_def RenderTexture_def call_def
      initial_state_def)

lemma loop_two_state:
  "loop_two sdl r b f 0 st = st\<lparr>trace := trace st @ loop_two_events sdl r b f\<rparr>"
  by (simp add: loop_two_events_def loop_two_unroll frame_two_state initial_state_def)

lemma loop_two_events_eq:
  "loop_two_events sdl r b f =
     frame_two_events sdl r b f @ frame_two_events sdl r b f @ frame_two_events sdl r b f"
  by (simp add: loop_two_events_def loop_two_unroll frame_two_state initial_state_def)

text \<open>What a frame of the two-texture program contributes to each observation.\<close>

lemmas frame_two_unfold =
  frame_two_events_def frame_two_def Let_def RenderTexture_trace initial_state_def

lemma frame_two_handles:
  "acquired (frame_two_events sdl r b f) = []"
  "released (frame_two_events sdl r b f) = []"
  "used_after_creation c (frame_two_events sdl r b f) =
     (Renderer r \<in> set c \<and> Texture b \<in> set c \<and> Texture f \<in> set c)"
  by (auto simp add: frame_two_unfold)

lemma loop_two_handles:
  "acquired (loop_two_events sdl r b f) = []"
  "released (loop_two_events sdl r b f) = []"
  "used_after_creation c (loop_two_events sdl r b f) =
     (Renderer r \<in> set c \<and> Texture b \<in> set c \<and> Texture f \<in> set c)"
  by (auto simp add: loop_two_events_eq frame_two_handles used_after_creation_append)

lemma frame_two_render_ops:
  "render_ops (frame_two_events sdl r b f) = cycle 5"
  by (simp add: frame_two_unfold cycle_def numeral_eq_Suc)

lemma loop_two_render_ops:
  "render_ops (loop_two_events sdl r b f) = concat (replicate 3 (cycle 5))"
  by (simp add: loop_two_events_eq frame_two_render_ops numeral_3_eq_3)

lemma frame_two_quiet:
  "errors (frame_two_events sdl r b f) = []"
  "decoded (frame_two_events sdl r b f) = []"
  "uploaded (frame_two_events sdl r b f) = []"
  "list_ex is_failed_step (frame_two_events sdl r b f) = False"
  "list_ex is_failed_decode (frame_two_events sdl r b f) = False"
  "list_ex is_failed_renderer (frame_two_events sdl r b f) = False"
  "list_ex is_upload (frame_two_events sdl r b f) = False"
  by (simp_all add: frame_two_unfold)

lemma loop_two_quiet:
  "errors (loop_two_events sdl r b f) = []"
  "decoded (loop_two_events sdl r b f) = []"
  "uploaded (loop_two_events sdl r b f) = []"
  "list_ex is_failed_step (loop_two_events sdl r b f) = False"
  "list_ex is_failed_decode (loop_two_events sdl r b f) = False"
  "list_ex is_failed_renderer (loop_two_events sdl r b f) = False"
  "list_ex is_upload (loop_two_events sdl r b f) = False"
  by (simp_all add: loop_two_events_eq frame_two_quiet)

lemma decode_simps [simp]:
  "decode_failed [] = False"
  "decode_failed (e # es) = (is_failed_decode e \<or> decode_failed es)"
  "decode_failed (xs @ ys) = (decode_failed xs \<or> decode_failed ys)"
  "renderer_creation_failed [] = False"
  "renderer_creation_failed (e # es) = (is_failed_renderer e \<or> renderer_creation_failed es)"
  "renderer_creation_failed (xs @ ys) =
     (renderer_creation_failed xs \<or> renderer_creation_failed ys)"
  "all_steps_succeeded [] = True"
  "all_steps_succeeded (e # es) = (\<not> is_failed_step e \<and> all_steps_succeeded es)"
  "all_steps_succeeded (xs @ ys) = (all_steps_succeeded xs \<and> all_steps_succeeded ys)"
  by (simp_all add: decode_failed_def renderer_creation_failed_def all_steps_succeeded_def)

lemma loop_two_steps:
  "decode_failed (loop_two_events sdl r b f) = False"
  "renderer_creation_failed (loop_two_events sdl r b f) = False"
  "all_steps_succeeded (loop_two_events sdl r b f) = True"
  by (simp_all add: decode_failed_def renderer_creation_failed_def all_steps_succeeded_def
      loop_two_quiet)

lemma loaded_simps [simp]:
  "loaded_files [] = []" "loaded_files (e # es) = loaded_file_of e @ loaded_files es"
  "loaded_files (xs @ ys) = loaded_files xs @ loaded_files ys"
  by (simp_all add: loaded_files_def)

lemma frame_two_buffers:
  "buffers_from No_buffer (frame_two_events sdl r b f @ es) = buffers_from No_buffer es"
  by (simp add: frame_two_unfold)

lemma loop_two_buffers:
  "buffers_from No_buffer (loop_two_events sdl r b f @ es) = buffers_from No_buffer es"
  by (simp add: loop_two_events_eq frame_two_buffers)

text \<open>One call of \<open>loadTexture\<close>.\<close>

lemma loadTexture_eq:
  "loadTexture sdl file renderer st =
     (if SDL_LoadBMP sdl (now st) file = None then None
      else SDL_CreateTextureFromSurface sdl (Suc (now st)) renderer
             (SDL_LoadBMP sdl (now st) file),
      st\<lparr>trace := trace st @
              load_events file renderer (SDL_LoadBMP sdl (now st) file)
                (if SDL_LoadBMP sdl (now st) file = None then None
                 else SDL_CreateTextureFromSurface sdl (Suc (now st)) renderer
                        (SDL_LoadBMP sdl (now st) file))
                (SDL_GetError sdl
                  (if SDL_LoadBMP sdl (now st) file = None then Suc (now st)
                   else Suc (Suc (Suc (now st))))),
          cerr := cerr st @
              load_errors
                (if SDL_LoadBMP sdl (now st) file = None then None
                 else SDL_CreateTextureFromSurface sdl (Suc (now st)) renderer
                        (SDL_LoadBMP sdl (now st) file))
                (SDL_GetError sdl
                  (if SDL_LoadBMP sdl (now st) file = None then Suc (now st)
                   else Suc (Suc (Suc (now st)))))\<rparr>)"
  by (simp add: loadTexture_def LogSDLError_def Let_def load_events_def load_errors_def
      now_def call_def put_def)


lemma loadTexture_run:
  obtains surf texture e where
    "surf = None \<longrightarrow> texture = None"
    "loadTexture sdl file renderer st =
       (texture, st\<lparr>trace := trace st @ load_events file renderer surf texture e,
                     cerr := cerr st @ load_errors texture e\<rparr>)"
proof -
  define surf where "surf = SDL_LoadBMP sdl (now st) file"
  define texture where
    "texture = (if surf = None then None
                else SDL_CreateTextureFromSurface sdl (Suc (now st)) renderer surf)"
  define e where
    "e = SDL_GetError sdl (if surf = None then Suc (now st) else Suc (Suc (Suc (now st))))"
  have "loadTexture sdl file renderer st =
       (texture, st\<lparr>trace := trace st @ load_events file renderer surf texture e,
                     cerr := cerr st @ load_errors texture e\<rparr>)"
    by (simp add: loadTexture_def LogSDLError_def Let_def load_events_def load_errors_def
        surf_def texture_def e_def now_def call_def put_def)
  moreover have "surf = None \<longrightarrow> texture = None"
    by (simp add: texture_def)
  ultimately show thesis
    using that by blast
qed

section \<open>The runs of the two programs\<close>

lemmas run_unfold =
  Let_def initial_state_def now_def call_def put_def LogSDLError_def cout_error_def
  numeral_2_eq_2


lemma renderer_fails_unfold:
  assumes "renderer_fails sdl w"
  shows "SDL_Init sdl 0 [SDL_INIT_VIDEO] = 0"
    "SDL_CreateWindow sdl (Suc 0) ''Hello, World!'' = w" "w \<noteq> None"
    "SDL_CreateRenderer sdl (Suc (Suc 0)) w = None"
  using assms by (simp_all add: renderer_fails_def numeral_2_eq_2)

lemma reaches_loading_unfold:
  assumes "reaches_loading sdl w r"
  shows "SDL_Init sdl 0 [SDL_INIT_VIDEO] = 0"
    "SDL_CreateWindow sdl (Suc 0) ''Hello, World!'' = w" "w \<noteq> None"
    "SDL_CreateRenderer sdl (Suc (Suc 0)) w = r" "r \<noteq> None"
  using assms by (simp_all add: reaches_loading_def numeral_2_eq_2)

text \<open>
  Every run of the single-texture program is one of six: a step fails (five ways) or
  all succeed.
\<close>

lemma main_single_cases [case_names init_failed window_failed renderer_failed decode_failed upload_failed success]:
  obtains
    (init_failed) rc e where "rc \<noteq> 0"
      "main_single sdl argc argv =
         (EXIT_FAILURE,
          \<lparr>trace = [Init [SDL_INIT_VIDEO] rc, GetError e],
           cout = ''SDL_Init Error: '' @ e @ newline, cerr = []\<rparr>)"
  | (window_failed) e where
      "main_single sdl argc argv =
         (EXIT_FAILURE,
          \<lparr>trace = [Init [SDL_INIT_VIDEO] 0,
                    CreateWindow ''Hello, World!'' 100 100 640 480 [SDL_WINDOW_SHOWN] None,
                    GetError e, Quit],
           cout = ''SDL_CreateWindow Error: '' @ e @ newline, cerr = []\<rparr>)"
  | (renderer_failed) w e where "w \<noteq> None"
      "main_single sdl argc argv =
         (EXIT_FAILURE,
          \<lparr>trace = [Init [SDL_INIT_VIDEO] 0,
                    CreateWindow ''Hello, World!'' 100 100 640 480 [SDL_WINDOW_SHOWN] w,
                    CreateRenderer w (- 1)
                      [SDL_RENDERER_ACCELERATED, SDL_RENDERER_PRESENTVSYNC] None,
                    DestroyWindow w, GetError e, Quit],
           cout = ''SDL_CreateRenderer Error: '' @ e @ newline, cerr = []\<rparr>)"
  | (decode_failed) w r e where "w \<noteq> None" "r \<noteq> None"
      "main_single sdl argc argv =
         (EXIT_FAILURE,
          \<lparr>trace = [Init [SDL_INIT_VIDEO] 0,
                    CreateWindow ''Hello, World!'' 100 100 640 480 [SDL_WINDOW_SHOWN] w,
                    CreateRenderer w (- 1)
                      [SDL_RENDERER_ACCELERATED, SDL_RENDERER_PRESENTVSYNC] r,
                    LoadBMP swirl_bmp None,
                    DestroyRenderer r, DestroyWindow w, GetError e, Quit],
           cout = ''SDL_LoadBMP Error: '' @ e @ newline, cerr = []\<rparr>)"
  | (upload_failed) w r s e where "w \<noteq> None" "r \<noteq> None" "s \<noteq> None"
      "main_single sdl argc argv =
         (EXIT_FAILURE,
          \<lparr>trace = [Init [SDL_INIT_VIDEO] 0,
                    CreateWindow ''Hello, World!'' 100 100 640 480 [SDL_WINDOW_SHOWN] w,
                    CreateRenderer w (- 1)
                      [SDL_RENDERER_ACCELERATED, SDL_RENDERER_PRESENTVSYNC] r,
                    LoadBMP swirl_bmp s,
                    CreateTextureFromSurface r s None, FreeSurface s,
                    DestroyRenderer r, DestroyWindow w, GetError e, Quit],
           cout = ''SDL_CreateTextureFromSurface Error: '' @ e @ newline, cerr = []\<rparr>)"
  | (success) w r s t where "w \<noteq> None" "r \<noteq> None" "s \<noteq> None" "t \<noteq> None"
      "main_single sdl argc argv =
         (EXIT_SUCCESS,
          \<lparr>trace = [Init [SDL_INIT_VIDEO] 0,
                    CreateWindow ''Hello, World!'' 100 100 640 480 [SDL_WINDOW_SHOWN] w,
                    CreateRenderer w (- 1)
                      [SDL_RENDERER_ACCELERATED, SDL_RENDERER_PRESENTVSYNC] r,
                    LoadBMP swirl_bmp s,
                    CreateTextureFromSurface r s t, FreeSurface s] @
                   concat (replicate 3
                     [RenderClear r, RenderCopy r t None None, RenderPresent r, Delay 1000]) @
                   [DestroyTexture t, DestroyRenderer r, DestroyWindow w, Quit],
           cout = [], cerr = []\<rparr>)"
proof -
  define rc where "rc = SDL_Init sdl 0 [SDL_INIT_VIDEO]"
  define w where "w = SDL_CreateWindow sdl (Suc 0) ''Hello, World!''"
  define r where "r = SDL_CreateRenderer sdl (Suc (Suc 0)) w"
  define s where "s = SDL_LoadBMP sdl (Suc (Suc (Suc 0))) swirl_bmp"
  define t where "t = SDL_CreateTextureFromSurface sdl (Suc (Suc (Suc (Suc 0)))) r s"
  note defs = rc_def w_def r_def s_def t_def
  note unfold = main_single_def Let_def initial_state_def now_def call_def put_def
    cout_error_def loop_single_unroll frame_single_def numeral_3_eq_3
  consider "rc \<noteq> 0" | "rc = 0" "w = None" | "rc = 0" "w \<noteq> None" "r = None"
    | "rc = 0" "w \<noteq> None" "r \<noteq> None" "s = None"
    | "rc = 0" "w \<noteq> None" "r \<noteq> None" "s \<noteq> None" "t = None"
    | "rc = 0" "w \<noteq> None" "r \<noteq> None" "s \<noteq> None" "t \<noteq> None"
    by blast
  then show thesis
  proof cases
    case 1
    then show ?thesis
      by (intro init_failed [of rc]) (simp_all add: unfold flip: defs)
  next
    case 2
    then show ?thesis
      by (intro window_failed) (simp add: unfold flip: defs)
  next
    case 3
    then show ?thesis
      by (intro renderer_failed [of w]) (simp_all add: unfold flip: defs)
  next
    case 4
    then show ?thesis
      by (intro decode_failed [of w r]) (simp_all add: unfold flip: defs)
  next
    case 5
    then show ?thesis
      by (intro upload_failed [of w r s]) (simp_all add: unfold flip: defs)
  next
    case 6
    then show ?thesis
      by (intro success [of w r s t]) (simp_all add: unfold flip: defs)
  qed
qed


text \<open>
  Every run of the two-texture program is one of five. Both textures are loaded before
  either is checked.
\<close>

lemma main_two_cases [case_names init_failed window_failed renderer_failed load_failed success]:
  obtains
    (init_failed) rc e where "rc \<noteq> 0"
      "main_two sdl argc argv =
         (EXIT_FAILURE,
          \<lparr>trace = [Init [SDL_INIT_VIDEO] rc, GetError e],
           cout = [], cerr = ''SDL_Init error: '' @ e @ newline\<rparr>)"
  | (window_failed) e where
      "main_two sdl argc argv =
         (EXIT_FAILURE,
          \<lparr>trace = [Init [SDL_INIT_VIDEO] 0,
                    CreateWindow ''Hello, World!'' 100 100 SCREEN_WIDTH SCREEN_HEIGHT
                      [SDL_WINDOW_SHOWN] None,
                    GetError e, Quit],
           cout = [], cerr = ''CreateWindow error: '' @ e @ newline\<rparr>)"
  | (renderer_failed) w e where "w \<noteq> None"
      "main_two sdl argc argv =
         (EXIT_FAILURE,
          \<lparr>trace = [Init [SDL_INIT_VIDEO] 0,
                    CreateWindow ''Hello, World!'' 100 100 SCREEN_WIDTH SCREEN_HEIGHT
                      [SDL_WINDOW_SHOWN] w,
                    CreateRenderer w (- 1)
                      [SDL_RENDERER_ACCELERATED, SDL_RENDERER_PRESENTVSYNC] None,
                    DestroyWindow w, GetError e, Quit],
           cout = [], cerr = ''CreateRenderer error: '' @ e @ newline\<rparr>)"
  | (load_failed) w r a1 t1 e1 a2 t2 e2 e where "w \<noteq> None" "r \<noteq> None"
      "a1 = None \<longrightarrow> t1 = None" "a2 = None \<longrightarrow> t2 = None" "t1 = None \<or> t2 = None"
      "main_two sdl argc argv =
         (EXIT_FAILURE,
          \<lparr>trace = [Init [SDL_INIT_VIDEO] 0,
                    CreateWindow ''Hello, World!'' 100 100 SCREEN_WIDTH SCREEN_HEIGHT
                      [SDL_WINDOW_SHOWN] w,
                    CreateRenderer w (- 1)
                      [SDL_RENDERER_ACCELERATED, SDL_RENDERER_PRESENTVSYNC] r] @
                   load_events background_bmp r a1 t1 e1 @
                   load_events foreground_bmp r a2 t2 e2 @
                   [DestroyRenderer r, DestroyWindow w, GetError e, Quit],
           cout = [],
           cerr = load_errors t1 e1 @ load_errors t2 e2 @
                  ''LoadTexture error: '' @ e @ newline\<rparr>)"
  | (success) w r a1 t1 a2 t2 where "w \<noteq> None" "r \<noteq> None"
      "a1 \<noteq> None" "t1 \<noteq> None" "a2 \<noteq> None" "t2 \<noteq> None"
      "main_two sdl argc argv =
         (EXIT_SUCCESS,
          \<lparr>trace = [Init [SDL_INIT_VIDEO] 0,
                    CreateWindow ''Hello, World!'' 100 100 SCREEN_WIDTH SCREEN_HEIGHT
                      [SDL_WINDOW_SHOWN] w,
                    CreateRenderer w (- 1)
                      [SDL_RENDERER_ACCELERATED, SDL_RENDERER_PRESENTVSYNC] r,
                    LoadBMP background_bmp a1,
                    CreateTextureFromSurface r a1 t1, FreeSurface a1,
                    LoadBMP foreground_bmp a2,
                    CreateTextureFromSurface r a2 t2, FreeSurface a2] @
                   loop_two_events sdl r t1 t2 @
                   [DestroyTexture t1, DestroyTexture t2, DestroyRenderer r,
                    DestroyWindow w, Quit],
           cout = [], cerr = []\<rparr>)"
proof -
  define rc where "rc = SDL_Init sdl 0 [SDL_INIT_VIDEO]"
  define w where "w = SDL_CreateWindow sdl (Suc 0) ''Hello, World!''"
  define r where "r = SDL_CreateRenderer sdl (Suc (Suc 0)) w"
  note defs = rc_def w_def r_def
  note unfold = main_two_def Let_def initial_state_def now_def call_def put_def
    LogSDLError_def
  consider "rc \<noteq> 0" | "rc = 0" "w = None" | "rc = 0" "w \<noteq> None" "r = None"
    | "rc = 0" "w \<noteq> None" "r \<noteq> None"
    by blast
  then show thesis
  proof cases
    case 1
    then show ?thesis
      by (intro init_failed [of rc]) (simp_all add: unfold flip: defs)
  next
    case 2
    then show ?thesis
      by (intro window_failed) (simp add: unfold flip: defs)
  next
    case 3
    then show ?thesis
      by (intro renderer_failed [of w]) (simp_all add: unfold flip: defs)
  next
    case 4
    define st3 where
      "st3 = \<lparr>trace = [Init [SDL_INIT_VIDEO] 0,
                CreateWindow ''Hello, World!'' 100 100 SCREEN_WIDTH SCREEN_HEIGHT
                  [SDL_WINDOW_SHOWN] w,
                CreateRenderer w (- 1)
                  [SDL_RENDERER_ACCELERATED, SDL_RENDERER_PRESENTVSYNC] r],
              cout = [], cerr = []\<rparr>"
    obtain a1 t1 e1 where l1: "a1 = None \<longrightarrow> t1 = None"
      "loadTexture sdl background_bmp r st3 =
         (t1, st3\<lparr>trace := trace st3 @ load_events background_bmp r a1 t1 e1,
                   cerr := cerr st3 @ load_errors t1 e1\<rparr>)"
      by (rule loadTexture_run)
    define st4 where
      "st4 = st3\<lparr>trace := trace st3 @ load_events background_bmp r a1 t1 e1,
                 cerr := cerr st3 @ load_errors t1 e1\<rparr>"
    obtain a2 t2 e2 where l2: "a2 = None \<longrightarrow> t2 = None"
      "loadTexture sdl foreground_bmp r st4 =
         (t2, st4\<lparr>trace := trace st4 @ load_events foreground_bmp r a2 t2 e2,
                   cerr := cerr st4 @ load_errors t2 e2\<rparr>)"
      by (rule loadTexture_run)
    define st5 where
      "st5 = st4\<lparr>trace := trace st4 @ load_events foreground_bmp r a2 t2 e2,
                 cerr := cerr st4 @ load_errors t2 e2\<rparr>"
    have start: "main_two sdl argc argv =
      (if t1 = None \<or> t2 = None then
         (let st = call (DestroyRenderer r) st5;
              st = call (DestroyWindow w) st;
              st = LogSDLError sdl std_cerr ''LoadTexture'' st;
              st = call Quit st
          in (EXIT_FAILURE, st))
       else
         (let st = loop_two sdl r t1 t2 0 st5;
              st = call (DestroyTexture t1) st;
              st = call (DestroyTexture t2) st;
              st = call (DestroyRenderer r) st;
              st = call (DestroyWindow w) st;
              st = call Quit st
          in (EXIT_SUCCESS, st)))"
      by (simp add: main_two_def Let_def initial_state_def now_def call_def 4 l1(2) l2(2)
          flip: defs st3_def st4_def st5_def)
    show ?thesis
    proof (cases "t1 = None \<or> t2 = None")
      case True
      show ?thesis
        by (rule load_failed [of w r a1 t1 a2 t2 e1 e2
              "SDL_GetError sdl (length (trace st5) + 2)"])
          (simp_all add: 4 l1(1) l2(1) True start st5_def st4_def st3_def Let_def
             LogSDLError_def now_def call_def put_def)
    next
      case False
      then have ok: "t1 \<noteq> None" "t2 \<noteq> None" "a1 \<noteq> None" "a2 \<noteq> None"
        using l1(1) l2(1) by auto
      show ?thesis
        by (rule success [of w r a1 t1 a2 t2])
          (simp_all add: 4 ok start st5_def st4_def st3_def Let_def loop_two_state
             call_def load_events_def load_errors_def)
    qed
  qed
qed

section \<open>Runs against the concrete libraries\<close>

lemma different_files:
  "background_bmp \<noteq> foreground_bmp" "swirl_bmp \<noteq> foreground_bmp"
  by (simp_all add: background_bmp_def foreground_bmp_def swirl_bmp_def img_path_def)

lemmas eval_unfold =
  Let_def initial_state_def now_def call_def put_def LogSDLError_def cout_error_def
  loadTexture_def loop_single_unroll frame_single_def loop_two_state different_files

lemma main_single_lib_ok:
  "main_single lib_ok argc argv =
     (EXIT_SUCCESS,
      \<lparr>trace = [Init [SDL_INIT_VIDEO] 0,
                CreateWindow ''Hello, World!'' 100 100 640 480 [SDL_WINDOW_SHOWN] (Some 1),
                CreateRenderer (Some 1) (- 1)
                  [SDL_RENDERER_ACCELERATED, SDL_RENDERER_PRESENTVSYNC] (Some 2),
                LoadBMP swirl_bmp (Some 3),
                CreateTextureFromSurface (Some 2) (Some 3) (Some 4), FreeSurface (Some 3),
                RenderClear (Some 2), RenderCopy (Some 2) (Some 4) None None,
                RenderPresent (Some 2), Delay 1000,
                RenderClear (Some 2), RenderCopy (Some 2) (Some 4) None None,
                RenderPresent (Some 2), Delay 1000,
                RenderClear (Some 2), RenderCopy (Some 2) (Some 4) None None,
                RenderPresent (Some 2), Delay 1000,
                DestroyTexture (Some 4), DestroyRenderer (Some 2),
                DestroyWindow (Some 1), Quit],
       cout = [], cerr = []\<rparr>)"
  by (simp add: main_single_def lib_ok_def eval_unfold)

lemma main_two_lib_ok:
  "main_two lib_ok argc argv =
     (EXIT_SUCCESS,
      \<lparr>trace = [Init [SDL_INIT_VIDEO] 0,
                CreateWindow ''Hello, World!'' 100 100 SCREEN_WIDTH SCREEN_HEIGHT
                  [SDL_WINDOW_SHOWN] (Some 1),
                CreateRenderer (Some 1) (- 1)
                  [SDL_RENDERER_ACCELERATED, SDL_RENDERER_PRESENTVSYNC] (Some 2),
                LoadBMP background_bmp (Some 3),
                CreateTextureFromSurface (Some 2) (Some 3) (Some 4), FreeSurface (Some 3),
                LoadBMP foreground_bmp (Some 5),
                CreateTextureFromSurface (Some 2) (Some 5) (Some 6), FreeSurface (Some 5)] @
               loop_two_events lib_ok (Some 2) (Some 4) (Some 6) @
               [DestroyTexture (Some 4), DestroyTexture (Some 6), DestroyRenderer (Some 2),
                DestroyWindow (Some 1), Quit],
       cout = [], cerr = []\<rparr>)"
  by (simp add: main_two_def lib_ok_def eval_unfold)

lemma main_single_lib_no_init:
  "main_single lib_no_init argc argv =
     (EXIT_FAILURE,
      \<lparr>trace = [Init [SDL_INIT_VIDEO] (- 1), GetError ''no video''],
       cout = ''SDL_Init Error: no video'' @ newline, cerr = []\<rparr>)"
  by (simp add: main_single_def lib_no_init_def lib_ok_def eval_unfold)

lemma main_two_lib_no_renderer:
  "main_two lib_no_renderer argc argv =
     (EXIT_FAILURE,
      \<lparr>trace = [Init [SDL_INIT_VIDEO] 0,
                CreateWindow ''Hello, World!'' 100 100 SCREEN_WIDTH SCREEN_HEIGHT
                  [SDL_WINDOW_SHOWN] (Some 1),
                CreateRenderer (Some 1) (- 1)
                  [SDL_RENDERER_ACCELERATED, SDL_RENDERER_PRESENTVSYNC] None,
                DestroyWindow (Some 1), GetError ''no driver'', Quit],
       cout = [], cerr = ''CreateRenderer error: no driver'' @ newline\<rparr>)"
  by (simp add: main_two_def lib_no_renderer_def lib_ok_def eval_unfold)

lemma main_two_lib_no_background:
  "main_two lib_no_background argc argv =
     (EXIT_FAILURE,
      \<lparr>trace = [Init [SDL_INIT_VIDEO] 0,
                CreateWindow ''Hello, World!'' 100 100 SCREEN_WIDTH SCREEN_HEIGHT
                  [SDL_WINDOW_SHOWN] (Some 1),
                CreateRenderer (Some 1) (- 1)
                  [SDL_RENDERER_ACCELERATED, SDL_RENDERER_PRESENTVSYNC] (Some 2),
                LoadBMP background_bmp None, GetError ''no file'',
                LoadBMP foreground_bmp (Some 5),
                CreateTextureFromSurface (Some 2) (Some 5) (Some 6), FreeSurface (Some 5),
                DestroyRenderer (Some 2), DestroyWindow (Some 1),
                GetError ''no file'', Quit],
       cout = [],
       cerr = ''LoadBMP error: no file'' @ newline @
              ''LoadTexture error: no file'' @ newline\<rparr>)"
  by (simp add: main_two_def lib_no_background_def lib_ok_def eval_unfold)

lemma main_single_lib_no_background:
  "main_single lib_no_background argc argv =
     (EXIT_FAILURE,
      \<lparr>trace = [Init [SDL_INIT_VIDEO] 0,
                CreateWindow ''Hello, World!'' 100 100 640 480 [SDL_WINDOW_SHOWN] (Some 1),
                CreateRenderer (Some 1) (- 1)
                  [SDL_RENDERER_ACCELERATED, SDL_RENDERER_PRESENTVSYNC] (Some 2),
                LoadBMP swirl_bmp None,
                DestroyRenderer (Some 2), DestroyWindow (Some 1),
                GetError ''no file'', Quit],
       cout = ''SDL_LoadBMP Error: no file'' @ newline, cerr = []\<rparr>)"
  by (simp add: main_single_def lib_no_background_def lib_ok_def eval_unfold)

lemma main_single_lib_no_renderer:
  "main_single lib_no_renderer argc argv =
     (EXIT_FAILURE,
      \<lparr>trace = [Init [SDL_INIT_VIDEO] 0,
                CreateWindow ''Hello, World!'' 100 100 640 480 [SDL_WINDOW_SHOWN] (Some 1),
                CreateRenderer (Some 1) (- 1)
                  [SDL_RENDERER_ACCELERATED, SDL_RENDERER_PRESENTVSYNC] None,
                DestroyWindow (Some 1), GetError ''no driver'', Quit],
       cout = ''SDL_CreateRenderer Error: no driver'' @ newline, cerr = []\<rparr>)"
  by (simp add: main_single_def lib_no_renderer_def lib_ok_def eval_unfold)

lemma main_two_lib_no_foreground:
  "main_two lib_no_foreground argc argv =
     (EXIT_FAILURE,
      \<lparr>trace = [Init [SDL_INIT_VIDEO] 0,
                CreateWindow ''Hello, World!'' 100 100 SCREEN_WIDTH SCREEN_HEIGHT
                  [SDL_WINDOW_SHOWN] (Some 1),
                CreateRenderer (Some 1) (- 1)
                  [SDL_RENDERER_ACCELERATED, SDL_RENDERER_PRESENTVSYNC] (Some 2),
                LoadBMP background_bmp (Some 3),
                CreateTextureFromSurface (Some 2) (Some 3) (Some 4), FreeSurface (Some 3),
                LoadBMP foreground_bmp None, GetError ''no file'',
                DestroyRenderer (Some 2), DestroyWindow (Some 1),
                GetError ''no file'', Quit],
       cout = [],
       cerr = ''LoadBMP error: no file'' @ newline @
              ''LoadTexture error: no file'' @ newline\<rparr>)"
  by (simp add: main_two_def lib_no_foreground_def lib_ok_def eval_unfold)

text \<open>What the concrete libraries answer to the first calls.\<close>

lemma library_answers:
  "renderer_fails lib_no_renderer (Some 1)"
  "reaches_loading lib_no_background (Some 1) (Some 2)"
  "reaches_loading lib_no_foreground (Some 1) (Some 2)"
  "SDL_LoadBMP lib_no_background 3 swirl_bmp = None"
  "SDL_LoadBMP lib_no_background 3 background_bmp = None"
  "SDL_LoadBMP lib_no_background 5 foreground_bmp = Some 5"
  "SDL_LoadBMP lib_no_foreground 3 background_bmp = Some 3"
  "SDL_CreateTextureFromSurface lib_no_foreground 4 (Some 2) (Some 3) = Some 4"
  "SDL_LoadBMP lib_no_foreground 6 foreground_bmp = None"
  by (simp_all add: renderer_fails_def reaches_loading_def lib_no_renderer_def
      lib_no_background_def lib_no_foreground_def lib_ok_def different_files)

section \<open>The destination rectangle of \<open>RenderTexture\<close>\<close>

text \<open>
  Claim C9. Whatever texture, renderer and position \<open>RenderTexture\<close> is given, once
  the query of the texture yields a width \<open>w\<close> and a height \<open>h\<close>, the rectangle
  passed to \<open>SDL_RenderCopy\<close> has the height \<open>h\<close> in its \<open>x\<close> field (not the
  argument \<open>x\<close>), its \<open>h\<close> field was never assigned, and its \<open>y\<close> and \<open>w\<close>
  fields hold the argument \<open>y\<close> and the width.
\<close>

theorem RenderTexture_destination:
  assumes "SDL_QueryTexture sdl texture = Some (w, h)"
  shows "trace (RenderTexture sdl texture renderer x y st) =
     trace st @
     [Enter_RenderTexture texture renderer x y,
      QueryTexture texture (Some (w, h)),
      RenderCopy renderer texture None
        (Some \<lparr>rect_x = Some h, rect_y = Some y, rect_w = Some w, rect_h = None\<rparr>)]"
  using assms
  by (simp add: RenderTexture_trace query_store_def addr_rect_w_def addr_rect_x_def)

theorem RenderTexture_destination_witness:
  "SDL_QueryTexture lib_ok (Some 4) = Some (100, 50) \<and>
   trace (RenderTexture lib_ok (Some 4) (Some 2) 7 9 initial_state) =
     [Enter_RenderTexture (Some 4) (Some 2) 7 9,
      QueryTexture (Some 4) (Some (100, 50)),
      RenderCopy (Some 2) (Some 4) None
        (Some \<lparr>rect_x = Some 50, rect_y = Some 9, rect_w = Some 100, rect_h = None\<rparr>)]"
proof -
  have q: "SDL_QueryTexture lib_ok (Some 4) = Some (100, 50)"
    by (simp add: lib_ok_def)
  show ?thesis
    using q RenderTexture_destination [OF q, of "Some 2" 7 9 initial_state]
    by (simp add: initial_state_def)
qed

section \<open>The command line\<close>

text \<open>
  Claim C10. The result of each program (exit status, calls made, text written) is the
  same for any two argument vectors: neither \<open>main\<close> consults \<open>argc\<close> or \<open>argv\<close>.
\<close>

theorem arguments_not_consulted:
  "main_single sdl argc argv = main_single sdl argc' argv' \<and>
   main_two sdl argc argv = main_two sdl argc' argv'"
  by (simp add: main_single_def main_two_def)


section \<open>Acquisition and release of handles\<close>

text \<open>
  The order of decode, upload and free is checked: a free before the upload, or after
  the texture is destroyed, is refused.
\<close>

lemma buffers_order_refused:
  "\<not> buffers_freed_after_upload
       [LoadBMP swirl_bmp (Some 3), FreeSurface (Some 3),
        CreateTextureFromSurface (Some 2) (Some 3) (Some 4)]"
  "\<not> buffers_freed_after_upload
       [LoadBMP swirl_bmp (Some 3), CreateTextureFromSurface (Some 2) (Some 3) (Some 4),
        DestroyTexture (Some 4), FreeSurface (Some 3)]"
  by (simp_all add: buffers_freed_after_upload_def)

lemma single_handles:
  "handles_released (trace (snd (main_single sdl argc argv)))"
  "textures_released (trace (snd (main_single sdl argc argv)))"
  by (rule main_single_cases [of sdl argc argv];
      simp add: handles_released_def textures_released_def buffers_freed_after_upload_def
        numeral_3_eq_3 del: not_None_eq)+

lemma two_handles:
  "handles_released (trace (snd (main_two sdl argc argv)))"
  by (rule main_two_cases [of sdl argc argv];
      auto simp add: handles_released_def used_after_creation_append loop_two_handles
        buffers_freed_after_upload_def loop_two_buffers load_events_def
        simp del: not_None_eq)

lemma two_textures:
  "length (filter is_texture (acquired (trace (snd (main_two sdl argc argv))))) \<noteq> 1 \<longrightarrow>
   textures_released (trace (snd (main_two sdl argc argv)))"
  by (rule main_two_cases [of sdl argc argv];
      auto simp add: textures_released_def loop_two_handles load_events_def
        simp del: not_None_eq)

text \<open>
  Claim C1, as the code has it. On every exit path of both programs no handle is used
  before its creation step reported success; the session, window and renderer that were
  acquired are released exactly once each, in reverse order of acquisition, after every
  release of a buffer or texture; and every decoded image buffer is released exactly
  once, by the call that follows the upload made from it, which itself follows the
  decode (so the buffer is released before the texture, not after it). Every texture
  created is destroyed exactly once, in order of creation, on every exit path of the
  single-texture program and on those exit paths of the two-texture program on which
  the number of textures created is not one.
\<close>

theorem handles_released_on_exit:
  "handles_released (trace (snd (main_single sdl argc argv))) \<and>
   textures_released (trace (snd (main_single sdl argc argv))) \<and>
   handles_released (trace (snd (main_two sdl argc argv))) \<and>
   (length (filter is_texture (acquired (trace (snd (main_two sdl argc argv))))) \<noteq> 1 \<longrightarrow>
    textures_released (trace (snd (main_two sdl argc argv))))"
  using single_handles two_handles two_textures by blast

theorem handles_released_on_exit_witness:
  "length (filter is_texture (acquired (trace (snd (main_two lib_ok 1 []))))) = 2 \<and>
   handles_released (trace (snd (main_two lib_ok 1 []))) \<and>
   textures_released (trace (snd (main_two lib_ok 1 []))) \<and>
   buffers_freed_after_upload (trace (snd (main_two lib_ok 1 []))) \<and>
   acquired (trace (snd (main_two lib_ok 1 []))) =
     [Session, Window (Some 1), Renderer (Some 2), Surface (Some 3), Texture (Some 4),
      Surface (Some 5), Texture (Some 6)] \<and>
   released (trace (snd (main_two lib_ok 1 []))) =
     [Surface (Some 3), Surface (Some 5), Texture (Some 4), Texture (Some 6),
      Renderer (Some 2), Window (Some 1), Session] \<and>
   handles_released (trace (snd (main_single lib_ok 1 []))) \<and>
   textures_released (trace (snd (main_single lib_ok 1 []))) \<and>
   buffers_freed_after_upload (trace (snd (main_single lib_ok 1 []))) \<and>
   acquired (trace (snd (main_single lib_ok 1 []))) =
     [Session, Window (Some 1), Renderer (Some 2), Surface (Some 3), Texture (Some 4)] \<and>
   released (trace (snd (main_single lib_ok 1 []))) =
     [Surface (Some 3), Texture (Some 4), Renderer (Some 2), Window (Some 1), Session]"
  using handles_released_on_exit [of lib_ok 1 "[]"]
  by (simp add: main_two_lib_ok main_single_lib_ok loop_two_handles handles_released_def)

text \<open>
  Claim C1 as stated fails: on the successful run of the single-texture program the
  buffer, acquired before the texture, is also released before it.
\<close>

theorem single_texture_not_released_in_reverse:
  "acquired (trace (snd (main_single lib_ok 1 []))) =
     [Session, Window (Some 1), Renderer (Some 2), Surface (Some 3), Texture (Some 4)] \<and>
   released (trace (snd (main_single lib_ok 1 []))) =
     [Surface (Some 3), Texture (Some 4), Renderer (Some 2), Window (Some 1), Session] \<and>
   \<not> released_in_reverse (trace (snd (main_single lib_ok 1 [])))"
  by (simp add: released_in_reverse_def main_single_lib_ok)

section \<open>The contract of \<open>loadTexture\<close>\<close>

text \<open>
  Claim C5. For every file name, renderer and state: if the decode fails,
  \<open>loadTexture\<close> returns null, makes no further call but the one for the error text,
  and writes the diagnostic line to standard error. If the decode yields a buffer, the
  buffer is uploaded and then freed whatever the upload returned; the result is what the
  upload returned, and when that is null the diagnostic line is written to standard
  error.
\<close>

theorem loadTexture_contract:
  "(SDL_LoadBMP sdl (now st) filename = None \<longrightarrow>
      fst (loadTexture sdl filename renderer st) = None \<and>
      trace (snd (loadTexture sdl filename renderer st)) =
        trace st @ [LoadBMP filename None, GetError (SDL_GetError sdl (now st + 1))] \<and>
      cerr (snd (loadTexture sdl filename renderer st)) =
        cerr st @ diagnostic_line ''LoadBMP'' (SDL_GetError sdl (now st + 1)) \<and>
      cout (snd (loadTexture sdl filename renderer st)) = cout st) \<and>
   (\<forall>a t. SDL_LoadBMP sdl (now st) filename = Some a \<longrightarrow>
      SDL_CreateTextureFromSurface sdl (now st + 1) renderer (Some a) = t \<longrightarrow>
      fst (loadTexture sdl filename renderer st) = t \<and>
      trace (snd (loadTexture sdl filename renderer st)) =
        trace st @
        [LoadBMP filename (Some a), CreateTextureFromSurface renderer (Some a) t,
         FreeSurface (Some a)] @
        (if t = None then [GetError (SDL_GetError sdl (now st + 3))] else []) \<and>
      cerr (snd (loadTexture sdl filename renderer st)) =
        cerr st @
        (if t = None then diagnostic_line ''LoadBMP'' (SDL_GetError sdl (now st + 3))
         else []) \<and>
      cout (snd (loadTexture sdl filename renderer st)) = cout st)"
  by (simp add: loadTexture_def LogSDLError_def Let_def now_def diagnostic_line_def
      eval_nat_numeral)

theorem loadTexture_contract_witness:
  "SDL_LoadBMP lib_no_background (now initial_state) background_bmp = None \<and>
   fst (loadTexture lib_no_background background_bmp (Some 2) initial_state) = None \<and>
   trace (snd (loadTexture lib_no_background background_bmp (Some 2) initial_state)) =
     [LoadBMP background_bmp None, GetError ''no file''] \<and>
   cerr (snd (loadTexture lib_no_background background_bmp (Some 2) initial_state)) =
     ''LoadBMP error: no file'' @ newline \<and>
   SDL_LoadBMP lib_no_upload (now initial_state) background_bmp = Some 3 \<and>
   fst (loadTexture lib_no_upload background_bmp (Some 2) initial_state) = None \<and>
   trace (snd (loadTexture lib_no_upload background_bmp (Some 2) initial_state)) =
     [LoadBMP background_bmp (Some 3), CreateTextureFromSurface (Some 2) (Some 3) None,
      FreeSurface (Some 3), GetError ''no memory''] \<and>
   cerr (snd (loadTexture lib_no_upload background_bmp (Some 2) initial_state)) =
     ''LoadBMP error: no memory'' @ newline \<and>
   SDL_LoadBMP lib_ok (now initial_state) background_bmp = Some 3 \<and>
   fst (loadTexture lib_ok background_bmp (Some 2) initial_state) = Some 4 \<and>
   trace (snd (loadTexture lib_ok background_bmp (Some 2) initial_state)) =
     [LoadBMP background_bmp (Some 3),
      CreateTextureFromSurface (Some 2) (Some 3) (Some 4), FreeSurface (Some 3)] \<and>
   cerr (snd (loadTexture lib_ok background_bmp (Some 2) initial_state)) = []"
  using loadTexture_contract [of lib_no_background initial_state background_bmp "Some 2"]
    loadTexture_contract [of lib_no_upload initial_state background_bmp "Some 2"]
    loadTexture_contract [of lib_ok initial_state background_bmp "Some 2"]
  by (simp add: now_def initial_state_def lib_ok_def lib_no_upload_def
      lib_no_background_def different_files diagnostic_line_def)

section \<open>Failure of the renderer\<close>

lemma single_renderer_failure:
  "renderer_creation_failed (trace (snd (main_single sdl argc argv))) \<longrightarrow>
     filter is_window (released (trace (snd (main_single sdl argc argv)))) =
       filter is_window (acquired (trace (snd (main_single sdl argc argv)))) \<and>
     length (filter is_window (released (trace (snd (main_single sdl argc argv))))) = 1 \<and>
     fst (main_single sdl argc argv) = EXIT_FAILURE"
  by (rule main_single_cases [of sdl argc argv];
      simp add: numeral_3_eq_3 del: not_None_eq)

lemma two_renderer_failure:
  "renderer_creation_failed (trace (snd (main_two sdl argc argv))) \<longrightarrow>
     filter is_window (released (trace (snd (main_two sdl argc argv)))) =
       filter is_window (acquired (trace (snd (main_two sdl argc argv)))) \<and>
     length (filter is_window (released (trace (snd (main_two sdl argc argv))))) = 1 \<and>
     fst (main_two sdl argc argv) = EXIT_FAILURE"
  by (rule main_two_cases [of sdl argc argv];
      simp add: loop_two_steps load_events_def del: not_None_eq)

lemma single_renderer_fails:
  assumes "renderer_fails sdl w"
  shows "renderer_creation_failed (trace (snd (main_single sdl argc argv))) \<and>
     filter is_window (acquired (trace (snd (main_single sdl argc argv)))) = [Window w] \<and>
     filter is_window (released (trace (snd (main_single sdl argc argv)))) = [Window w] \<and>
     fst (main_single sdl argc argv) = EXIT_FAILURE"
  by (simp add: main_single_def run_unfold renderer_fails_unfold [OF assms]
      del: not_None_eq)

lemma two_renderer_fails:
  assumes "renderer_fails sdl w"
  shows "renderer_creation_failed (trace (snd (main_two sdl argc argv))) \<and>
     filter is_window (acquired (trace (snd (main_two sdl argc argv)))) = [Window w] \<and>
     filter is_window (released (trace (snd (main_two sdl argc argv)))) = [Window w] \<and>
     fst (main_two sdl argc argv) = EXIT_FAILURE"
  by (simp add: main_two_def run_unfold renderer_fails_unfold [OF assms]
      del: not_None_eq)

text \<open>
  Claim C7. In both programs, when the library initialises, creates the window \<open>w\<close>
  and then fails to create the renderer, the run records the failed creation, the
  windows created and the windows destroyed are both exactly \<open>w\<close>, once, and the
  program exits with the failure status. And whatever the library answers, a run that
  records a failed renderer creation destroys exactly once the window it created and
  exits with the failure status.
\<close>

theorem window_released_when_renderer_fails:
  "(renderer_fails sdl w \<longrightarrow>
     renderer_creation_failed (trace (snd (main_single sdl argc argv))) \<and>
     filter is_window (acquired (trace (snd (main_single sdl argc argv)))) = [Window w] \<and>
     filter is_window (released (trace (snd (main_single sdl argc argv)))) = [Window w] \<and>
     fst (main_single sdl argc argv) = EXIT_FAILURE \<and>
     renderer_creation_failed (trace (snd (main_two sdl argc argv))) \<and>
     filter is_window (acquired (trace (snd (main_two sdl argc argv)))) = [Window w] \<and>
     filter is_window (released (trace (snd (main_two sdl argc argv)))) = [Window w] \<and>
     fst (main_two sdl argc argv) = EXIT_FAILURE) \<and>
   (renderer_creation_failed (trace (snd (main_single sdl argc argv))) \<longrightarrow>
     filter is_window (released (trace (snd (main_single sdl argc argv)))) =
       filter is_window (acquired (trace (snd (main_single sdl argc argv)))) \<and>
     length (filter is_window (released (trace (snd (main_single sdl argc argv))))) = 1 \<and>
     fst (main_single sdl argc argv) = EXIT_FAILURE) \<and>
   (renderer_creation_failed (trace (snd (main_two sdl argc argv))) \<longrightarrow>
     filter is_window (released (trace (snd (main_two sdl argc argv)))) =
       filter is_window (acquired (trace (snd (main_two sdl argc argv)))) \<and>
     length (filter is_window (released (trace (snd (main_two sdl argc argv))))) = 1 \<and>
     fst (main_two sdl argc argv) = EXIT_FAILURE)"
  using single_renderer_fails [of sdl w argc argv] two_renderer_fails [of sdl w argc argv]
    single_renderer_failure [of sdl argc argv] two_renderer_failure [of sdl argc argv]
  by blast

theorem window_released_when_renderer_fails_witness:
  "renderer_fails lib_no_renderer (Some 1) \<and>
   renderer_creation_failed (trace (snd (main_single lib_no_renderer 1 []))) \<and>
   acquired (trace (snd (main_single lib_no_renderer 1 []))) =
     [Session, Window (Some 1)] \<and>
   released (trace (snd (main_single lib_no_renderer 1 []))) =
     [Window (Some 1), Session] \<and>
   fst (main_single lib_no_renderer 1 []) = EXIT_FAILURE \<and>
   renderer_creation_failed (trace (snd (main_two lib_no_renderer 1 []))) \<and>
   acquired (trace (snd (main_two lib_no_renderer 1 []))) = [Session, Window (Some 1)] \<and>
   released (trace (snd (main_two lib_no_renderer 1 []))) = [Window (Some 1), Session] \<and>
   fst (main_two lib_no_renderer 1 []) = EXIT_FAILURE"
  using window_released_when_renderer_fails [of lib_no_renderer "Some 1" 1 "[]"]
    library_answers
  by (simp add: main_two_lib_no_renderer main_single_lib_no_renderer)

section \<open>The frame loop\<close>

lemma single_cycles:
  "all_steps_succeeded (trace (snd (main_single sdl argc argv))) \<longrightarrow>
     render_ops (trace (snd (main_single sdl argc argv))) = concat (replicate 3 (cycle 1))"
  by (rule main_single_cases [of sdl argc argv];
      simp add: numeral_3_eq_3 cycle_def del: not_None_eq)

lemma two_cycles:
  "all_steps_succeeded (trace (snd (main_two sdl argc argv))) \<longrightarrow>
     render_ops (trace (snd (main_two sdl argc argv))) = concat (replicate 3 (cycle 5))"
  by (rule main_two_cases [of sdl argc argv];
      auto simp add: loop_two_steps loop_two_render_ops load_events_def
        simp del: not_None_eq)

text \<open>
  Claim C6. On a run on which no step reports failure, the rendering operations are
  exactly three cycles, each a clear, the copies (one in the single-texture program,
  five in the two-texture program), a present and a pause of 1000 milliseconds, in that
  order.
\<close>

theorem three_cycles:
  "(all_steps_succeeded (trace (snd (main_single sdl argc argv))) \<longrightarrow>
     render_ops (trace (snd (main_single sdl argc argv))) = concat (replicate 3 (cycle 1))) \<and>
   (all_steps_succeeded (trace (snd (main_two sdl argc argv))) \<longrightarrow>
     render_ops (trace (snd (main_two sdl argc argv))) = concat (replicate 3 (cycle 5)))"
  using single_cycles two_cycles by blast

theorem three_cycles_witness:
  "all_steps_succeeded (trace (snd (main_single lib_ok 1 []))) \<and>
   render_ops (trace (snd (main_single lib_ok 1 []))) =
     [Clear, Copy, Present, Pause 1000, Clear, Copy, Present, Pause 1000,
      Clear, Copy, Present, Pause 1000] \<and>
   all_steps_succeeded (trace (snd (main_two lib_ok 1 []))) \<and>
   render_ops (trace (snd (main_two lib_ok 1 []))) =
     [Clear, Copy, Copy, Copy, Copy, Copy, Present, Pause 1000,
      Clear, Copy, Copy, Copy, Copy, Copy, Present, Pause 1000,
      Clear, Copy, Copy, Copy, Copy, Copy, Present, Pause 1000]"
  using three_cycles [of lib_ok 1 "[]"]
  by (simp add: main_single_lib_ok main_two_lib_ok loop_two_steps cycle_def
      numeral_eq_Suc)

section \<open>Failure of a decode\<close>

lemma single_failed_decode:
  "decode_failed (trace (snd (main_single sdl argc argv))) \<longrightarrow>
     fst (main_single sdl argc argv) = EXIT_FAILURE \<and>
     render_ops (trace (snd (main_single sdl argc argv))) = [] \<and>
     uploaded (trace (snd (main_single sdl argc argv))) = []"
  by (rule main_single_cases [of sdl argc argv];
      simp add: numeral_3_eq_3 del: not_None_eq)

lemma two_failed_decode:
  "decode_failed (trace (snd (main_two sdl argc argv))) \<longrightarrow>
     fst (main_two sdl argc argv) = EXIT_FAILURE \<and>
     render_ops (trace (snd (main_two sdl argc argv))) = [] \<and>
     uploaded (trace (snd (main_two sdl argc argv))) =
       decoded (trace (snd (main_two sdl argc argv))) \<and>
     \<not> list_ex is_upload
         (after_failed_decode_of foreground_bmp (trace (snd (main_two sdl argc argv))))"
  by (rule main_two_cases [of sdl argc argv];
      auto simp add: loop_two_steps load_events_def after_failed_decode_of_def
        different_files simp del: not_None_eq)

lemma single_decode_fails:
  assumes "reaches_loading sdl w r" "SDL_LoadBMP sdl 3 swirl_bmp = None"
  shows "decode_failed (trace (snd (main_single sdl argc argv))) \<and>
     fst (main_single sdl argc argv) = EXIT_FAILURE \<and>
     render_ops (trace (snd (main_single sdl argc argv))) = [] \<and>
     uploaded (trace (snd (main_single sdl argc argv))) = []"
proof -
  have a: "SDL_LoadBMP sdl (Suc (Suc (Suc 0))) swirl_bmp = None"
    using assms(2) by (simp add: numeral_3_eq_3)
  show ?thesis
    by (simp add: main_single_def run_unfold reaches_loading_unfold [OF assms(1)] a
        del: not_None_eq)
qed

lemma two_background_decode_fails:
  assumes "reaches_loading sdl w r" "SDL_LoadBMP sdl 3 background_bmp = None"
  shows "decode_failed (trace (snd (main_two sdl argc argv))) \<and>
     fst (main_two sdl argc argv) = EXIT_FAILURE \<and>
     render_ops (trace (snd (main_two sdl argc argv))) = [] \<and>
     loaded_files (after_failed_decode (trace (snd (main_two sdl argc argv)))) =
       [background_bmp, foreground_bmp] \<and>
     decoded (trace (snd (main_two sdl argc argv))) =
       (if SDL_LoadBMP sdl 5 foreground_bmp = None then []
        else [SDL_LoadBMP sdl 5 foreground_bmp]) \<and>
     uploaded (after_failed_decode (trace (snd (main_two sdl argc argv)))) =
       decoded (trace (snd (main_two sdl argc argv)))"
proof -
  have a: "SDL_LoadBMP sdl (Suc (Suc (Suc 0))) background_bmp = None"
    using assms(2) by (simp add: numeral_3_eq_3)
  have five: "(5::nat) = Suc (Suc (Suc (Suc (Suc 0))))"
    by simp
  show ?thesis
    by (simp add: main_two_def run_unfold loadTexture_eq load_events_def load_errors_def
        after_failed_decode_def reaches_loading_unfold [OF assms(1)] a five
        del: not_None_eq)
qed

lemma two_foreground_decode_fails:
  assumes "reaches_loading sdl w r" "SDL_LoadBMP sdl 3 background_bmp = a" "a \<noteq> None"
    "SDL_CreateTextureFromSurface sdl 4 r a \<noteq> None"
    "SDL_LoadBMP sdl 6 foreground_bmp = None"
  shows "decode_failed (trace (snd (main_two sdl argc argv))) \<and>
     fst (main_two sdl argc argv) = EXIT_FAILURE \<and>
     render_ops (trace (snd (main_two sdl argc argv))) = [] \<and>
     loaded_files (trace (snd (main_two sdl argc argv))) =
       [background_bmp, foreground_bmp] \<and>
     uploaded (trace (snd (main_two sdl argc argv))) = [a] \<and>
     uploaded (after_failed_decode (trace (snd (main_two sdl argc argv)))) = []"
proof -
  have a: "SDL_LoadBMP sdl (Suc (Suc (Suc 0))) background_bmp = a"
    "SDL_CreateTextureFromSurface sdl (Suc (Suc (Suc (Suc 0)))) r a \<noteq> None"
    "SDL_LoadBMP sdl (Suc (Suc (Suc (Suc (Suc (Suc 0)))))) foreground_bmp = None"
    using assms(2,4,5) by (simp_all add: eval_nat_numeral)
  show ?thesis
    by (simp add: main_two_def run_unfold loadTexture_eq load_events_def load_errors_def
        after_failed_decode_def reaches_loading_unfold [OF assms(1)] a assms(3)
        del: not_None_eq)
qed

lemma two_failed_decode_files:
  "decode_failed (trace (snd (main_two sdl argc argv))) \<longrightarrow>
     loaded_files (trace (snd (main_two sdl argc argv))) = [background_bmp, foreground_bmp]"
  by (rule main_two_cases [of sdl argc argv];
      auto simp add: loop_two_steps load_events_def simp del: not_None_eq)

text \<open>
  Claim C2, as the code has it. When a decode fails, the program exits with the failure
  status and makes no rendering call; a buffer is uploaded only if it was decoded, so
  no upload is made for the file that failed. In the single-texture program no upload
  is made at all. In the two-texture program both files are asked for, the background
  first; no upload follows a failed decode of the foreground; and after a failed decode
  of the background the foreground is still decoded and, if the library decodes it,
  uploaded. This holds of every run that records a failed decode, and of every library
  that lets the program reach the loading step and then fails the decode (of the one
  file, of the background, or of the foreground after the background was loaded).
\<close>

theorem failed_decode_aborts:
  "(decode_failed (trace (snd (main_single sdl argc argv))) \<longrightarrow>
     fst (main_single sdl argc argv) = EXIT_FAILURE \<and>
     render_ops (trace (snd (main_single sdl argc argv))) = [] \<and>
     uploaded (trace (snd (main_single sdl argc argv))) = []) \<and>
   (decode_failed (trace (snd (main_two sdl argc argv))) \<longrightarrow>
     fst (main_two sdl argc argv) = EXIT_FAILURE \<and>
     render_ops (trace (snd (main_two sdl argc argv))) = [] \<and>
     uploaded (trace (snd (main_two sdl argc argv))) =
       decoded (trace (snd (main_two sdl argc argv))) \<and>
     \<not> list_ex is_upload
         (after_failed_decode_of foreground_bmp (trace (snd (main_two sdl argc argv)))) \<and>
     loaded_files (trace (snd (main_two sdl argc argv))) =
       [background_bmp, foreground_bmp]) \<and>
   (reaches_loading sdl w r \<longrightarrow> SDL_LoadBMP sdl 3 swirl_bmp = None \<longrightarrow>
     decode_failed (trace (snd (main_single sdl argc argv))) \<and>
     fst (main_single sdl argc argv) = EXIT_FAILURE \<and>
     render_ops (trace (snd (main_single sdl argc argv))) = [] \<and>
     uploaded (trace (snd (main_single sdl argc argv))) = []) \<and>
   (reaches_loading sdl w r \<longrightarrow> SDL_LoadBMP sdl 3 background_bmp = None \<longrightarrow>
     decode_failed (trace (snd (main_two sdl argc argv))) \<and>
     fst (main_two sdl argc argv) = EXIT_FAILURE \<and>
     render_ops (trace (snd (main_two sdl argc argv))) = [] \<and>
     loaded_files (after_failed_decode (trace (snd (main_two sdl argc argv)))) =
       [background_bmp, foreground_bmp] \<and>
     decoded (trace (snd (main_two sdl argc argv))) =
       (if SDL_LoadBMP sdl 5 foreground_bmp = None then []
        else [SDL_LoadBMP sdl 5 foreground_bmp]) \<and>
     uploaded (after_failed_decode (trace (snd (main_two sdl argc argv)))) =
       decoded (trace (snd (main_two sdl argc argv)))) \<and>
   (reaches_loading sdl w r \<longrightarrow> SDL_LoadBMP sdl 3 background_bmp = a \<longrightarrow> a \<noteq> None \<longrightarrow>
    SDL_CreateTextureFromSurface sdl 4 r a \<noteq> None \<longrightarrow>
    SDL_LoadBMP sdl 6 foreground_bmp = None \<longrightarrow>
     decode_failed (trace (snd (main_two sdl argc argv))) \<and>
     fst (main_two sdl argc argv) = EXIT_FAILURE \<and>
     render_ops (trace (snd (main_two sdl argc argv))) = [] \<and>
     loaded_files (trace (snd (main_two sdl argc argv))) =
       [background_bmp, foreground_bmp] \<and>
     uploaded (trace (snd (main_two sdl argc argv))) = [a] \<and>
     uploaded (after_failed_decode (trace (snd (main_two sdl argc argv)))) = [])"
  using single_failed_decode [of sdl argc argv] two_failed_decode [of sdl argc argv]
    two_failed_decode_files [of sdl argc argv]
    single_decode_fails [of sdl w r argc argv]
    two_background_decode_fails [of sdl w r argc argv]
    two_foreground_decode_fails [of sdl w r a argc argv]
  by blast

theorem failed_decode_aborts_witness:
  "reaches_loading lib_no_background (Some 1) (Some 2) \<and>
   SDL_LoadBMP lib_no_background 3 swirl_bmp = None \<and>
   SDL_LoadBMP lib_no_background 3 background_bmp = None \<and>
   decode_failed (trace (snd (main_single lib_no_background 1 []))) \<and>
   fst (main_single lib_no_background 1 []) = EXIT_FAILURE \<and>
   uploaded (trace (snd (main_single lib_no_background 1 []))) = [] \<and>
   decode_failed (trace (snd (main_two lib_no_background 1 []))) \<and>
   fst (main_two lib_no_background 1 []) = EXIT_FAILURE \<and>
   render_ops (trace (snd (main_two lib_no_background 1 []))) = [] \<and>
   loaded_files (after_failed_decode (trace (snd (main_two lib_no_background 1 [])))) =
     [background_bmp, foreground_bmp] \<and>
   uploaded (after_failed_decode (trace (snd (main_two lib_no_background 1 [])))) =
     [Some 5] \<and>
   reaches_loading lib_no_foreground (Some 1) (Some 2) \<and>
   SDL_LoadBMP lib_no_foreground 6 foreground_bmp = None \<and>
   decode_failed (trace (snd (main_two lib_no_foreground 1 []))) \<and>
   fst (main_two lib_no_foreground 1 []) = EXIT_FAILURE \<and>
   uploaded (trace (snd (main_two lib_no_foreground 1 []))) = [Some 3] \<and>
   uploaded (after_failed_decode (trace (snd (main_two lib_no_foreground 1 [])))) = []"
  using failed_decode_aborts [of lib_no_background 1 "[]" "Some 1" "Some 2" "Some 3"]
    failed_decode_aborts [of lib_no_foreground 1 "[]" "Some 1" "Some 2" "Some 3"]
    library_answers
  by (simp add: main_single_lib_no_background main_two_lib_no_background
      main_two_lib_no_foreground after_failed_decode_def)

text \<open>
  Claim C2 as stated fails in the two-texture program: both files are loaded before
  either result is checked, so after a failed decode of the background the foreground
  is still decoded and uploaded.
\<close>

theorem upload_after_failed_background_decode:
  "decode_failed (trace (snd (main_two lib_no_background 1 []))) \<and>
   upload_after_failed_decode (trace (snd (main_two lib_no_background 1 [])))"
  by (simp add: main_two_lib_no_background upload_after_failed_decode_def
      after_failed_decode_def)

section \<open>Diagnostics\<close>

lemma single_diagnostics:
  "\<exists>ops. set ops \<subseteq> set operations_single \<and>
         diagnostics_on_cout ops (snd (main_single sdl argc argv))"
proof (cases rule: main_single_cases [of sdl argc argv])
  case (init_failed rc e)
  then show ?thesis
    by (intro exI [of _ "[''SDL_Init'']"])
      (simp add: diagnostics_on_cout_def cout_line_def operations_single_def)
next
  case (window_failed e)
  then show ?thesis
    by (intro exI [of _ "[''SDL_CreateWindow'']"])
      (simp add: diagnostics_on_cout_def cout_line_def operations_single_def)
next
  case (renderer_failed w e)
  then show ?thesis
    by (intro exI [of _ "[''SDL_CreateRenderer'']"])
      (simp add: diagnostics_on_cout_def cout_line_def operations_single_def)
next
  case (decode_failed w r e)
  then show ?thesis
    by (intro exI [of _ "[''SDL_LoadBMP'']"])
      (simp add: diagnostics_on_cout_def cout_line_def operations_single_def)
next
  case (upload_failed w r s e)
  then show ?thesis
    by (intro exI [of _ "[''SDL_CreateTextureFromSurface'']"])
      (simp add: diagnostics_on_cout_def cout_line_def operations_single_def)
next
  case (success w r s t)
  then show ?thesis
    by (intro exI [of _ "[]"])
      (simp add: diagnostics_on_cout_def numeral_3_eq_3)
qed

lemma two_diagnostics:
  "\<exists>ops. set ops \<subseteq> set operations_two \<and>
         diagnostics_on_cerr ops (snd (main_two sdl argc argv))"
proof (cases rule: main_two_cases [of sdl argc argv])
  case (init_failed rc e)
  then show ?thesis
    by (intro exI [of _ "[''SDL_Init'']"])
      (simp add: diagnostics_on_cerr_def diagnostic_line_def operations_two_def)
next
  case (window_failed e)
  then show ?thesis
    by (intro exI [of _ "[''CreateWindow'']"])
      (simp add: diagnostics_on_cerr_def diagnostic_line_def operations_two_def)
next
  case (renderer_failed w e)
  then show ?thesis
    by (intro exI [of _ "[''CreateRenderer'']"])
      (simp add: diagnostics_on_cerr_def diagnostic_line_def operations_two_def)
next
  case (load_failed w r a1 t1 e1 a2 t2 e2 e)
  then show ?thesis
    by (intro exI [of _ "(if t1 = None then [''LoadBMP''] else []) @
          (if t2 = None then [''LoadBMP''] else []) @ [''LoadTexture'']"])
      (auto simp add: diagnostics_on_cerr_def diagnostic_line_def operations_two_def
        load_events_def load_errors_def)
next
  case (success w r a1 t1 a2 t2)
  then show ?thesis
    by (intro exI [of _ "[]"])
      (simp add: diagnostics_on_cerr_def loop_two_quiet)
qed

text \<open>
  Claim C8, as the code has it. The two-texture program writes nothing on standard
  output, and on standard error one line \<open>operation error: text\<close> for each error
  text it got from \<open>SDL_GetError\<close>, in order. The single-texture program writes
  nothing on standard error, and on standard output one line
  \<open>operation Error: text\<close> for each such text.
\<close>

theorem diagnostics_by_variant:
  "(\<exists>ops. set ops \<subseteq> set operations_two \<and>
          diagnostics_on_cerr ops (snd (main_two sdl argc argv))) \<and>
   (\<exists>ops. set ops \<subseteq> set operations_single \<and>
          diagnostics_on_cout ops (snd (main_single sdl argc argv)))"
  using single_diagnostics two_diagnostics by blast

theorem diagnostics_by_variant_witness:
  "(\<exists>ops. set ops \<subseteq> set operations_two \<and>
          diagnostics_on_cerr ops (snd (main_two lib_no_background 1 []))) \<and>
   cerr (snd (main_two lib_no_background 1 [])) =
     ''LoadBMP error: no file'' @ newline @ ''LoadTexture error: no file'' @ newline \<and>
   (\<exists>ops. set ops \<subseteq> set operations_single \<and>
          diagnostics_on_cout ops (snd (main_single lib_no_background 1 []))) \<and>
   cout (snd (main_single lib_no_background 1 [])) =
     ''SDL_LoadBMP Error: no file'' @ newline"
  using diagnostics_by_variant [of lib_no_background 1 "[]"]
  by (simp add: main_two_lib_no_background main_single_lib_no_background)

text \<open>
  Claim C8 as stated fails for the single-texture program: when initialisation fails,
  its diagnostic is not on standard error.
\<close>

theorem single_texture_diagnostic_on_cout:
  "errors (trace (snd (main_single lib_no_init 1 []))) = [''no video''] \<and>
   cerr (snd (main_single lib_no_init 1 [])) = [] \<and>
   cout (snd (main_single lib_no_init 1 [])) = ''SDL_Init Error: no video'' @ newline \<and>
   \<not> diagnostics_on_cerr [''SDL_Init''] (snd (main_single lib_no_init 1 []))"
  by (simp add: diagnostics_on_cerr_def main_single_lib_no_init)

section \<open>Centring the foreground\<close>

text \<open>Halving a C \<open>int\<close> and subtracting the half from a small number do not overflow.\<close>

lemma sdiv_2_bounds:
  fixes k :: int
  assumes "- (2 ^ 31) \<le> k" "k < 2 ^ 31"
  shows "- (2 ^ 30) \<le> k sdiv 2" "k sdiv 2 \<le> 2 ^ 30"
  using assms by (auto simp: signed_divide_int_def sgn_if)

lemma sint_c_div_2: "sint (c_div a 2) = sint a sdiv 2"
proof -
  have lo: "- (2 ^ 31) \<le> sint a" and hi: "sint a < 2 ^ 31"
    using sint_ge [of a] sint_lt [of a] by simp_all
  have "signed_take_bit 31 (sint a sdiv 2) = sint a sdiv 2"
    using sdiv_2_bounds [OF lo hi] by (intro signed_take_bit_int_eq_self) simp_all
  then show ?thesis
    by (simp add: c_div_def sint_sbintrunc')
qed

lemma sint_centre:
  assumes "sint c = n" "0 \<le> n" "n \<le> 1000"
  shows "sint (c - c_div a 2) = n - sint a sdiv 2"
proof -
  have lo: "- (2 ^ 31) \<le> sint a" and hi: "sint a < 2 ^ 31"
    using sint_ge [of a] sint_lt [of a] by simp_all
  have "signed_take_bit 31 (n - sint a sdiv 2) = n - sint a sdiv 2"
    using sdiv_2_bounds [OF lo hi] assms by (intro signed_take_bit_int_eq_self) simp_all
  then show ?thesis
    by (simp add: sint_word_diff sint_c_div_2 assms)
qed

lemma half_screen: "c_div SCREEN_WIDTH 2 = 320" "c_div SCREEN_HEIGHT 2 = 240"
  by (simp_all add: c_div_def SCREEN_WIDTH_def SCREEN_HEIGHT_def)

lemma frame_two_render_calls:
  "render_calls (frame_two_events sdl r b f) =
     [(b, 0, 0),
      (b, var_bW (query_store (SDL_QueryTexture sdl b) addr_bW addr_bW
            \<lparr>var_bW = 0, var_bH = 0, var_iW = 0, var_iH = 0\<rparr>), 0),
      (b, 0, 0),
      (b, var_bW (query_store (SDL_QueryTexture sdl b) addr_bW addr_bW
            \<lparr>var_bW = 0, var_bH = 0, var_iW = 0, var_iH = 0\<rparr>), 0),
      (f,
       c_div SCREEN_WIDTH 2 -
         c_div (var_iW (query_store (SDL_QueryTexture sdl f) addr_iW addr_iH
            (query_store (SDL_QueryTexture sdl b) addr_bW addr_bW
              \<lparr>var_bW = 0, var_bH = 0, var_iW = 0, var_iH = 0\<rparr>))) 2,
       c_div SCREEN_HEIGHT 2 -
         c_div (var_iH (query_store (SDL_QueryTexture sdl f) addr_iW addr_iH
            (query_store (SDL_QueryTexture sdl b) addr_bW addr_bW
              \<lparr>var_bW = 0, var_bH = 0, var_iW = 0, var_iH = 0\<rparr>))) 2)]"
  by (simp add: frame_two_unfold query_store_def addr_bW_def
      split: option.splits prod.splits)

text \<open>
  Claim C4. In a frame of the two-texture program, when the query of the foreground
  yields the width \<open>iW\<close> and the height \<open>iH\<close>, the last call of
  \<open>RenderTexture\<close>, after the four for the background, is for the foreground at
  \<open>x = SCREEN_WIDTH / 2 - iW / 2\<close> and \<open>y = SCREEN_HEIGHT / 2 - iH / 2\<close>; read as
  integers, with division truncating towards zero, \<open>x = 320 - iW / 2\<close> and
  \<open>y = 240 - iH / 2\<close>.
\<close>

theorem foreground_centred:
  assumes "SDL_QueryTexture sdl foreground = Some (iW, iH)"
  shows "\<exists>tiles x y.
     render_calls (trace (frame_two sdl renderer background foreground st)) =
       render_calls (trace st) @ tiles @ [(foreground, x, y)] \<and>
     map fst tiles = replicate 4 background \<and>
     x = c_div SCREEN_WIDTH 2 - c_div iW 2 \<and>
     y = c_div SCREEN_HEIGHT 2 - c_div iH 2 \<and>
     sint x = 320 - sint iW sdiv 2 \<and>
     sint y = 240 - sint iH sdiv 2"
proof -
  let ?l = "query_store (SDL_QueryTexture sdl background) addr_bW addr_bW
              \<lparr>var_bW = 0, var_bH = 0, var_iW = 0, var_iH = 0\<rparr>"
  have fg: "var_iW (query_store (SDL_QueryTexture sdl foreground) addr_iW addr_iH ?l) = iW"
    "var_iH (query_store (SDL_QueryTexture sdl foreground) addr_iW addr_iH ?l) = iH"
    by (simp_all add: assms query_store_def addr_iW_def addr_iH_def)
  show ?thesis
    by (intro exI [of _ "[(background, 0, 0), (background, var_bW ?l, 0),
          (background, 0, 0), (background, var_bW ?l, 0)]"]
        exI [of _ "c_div SCREEN_WIDTH 2 - c_div iW 2"]
        exI [of _ "c_div SCREEN_HEIGHT 2 - c_div iH 2"])
      (simp add: frame_two_state frame_two_render_calls fg half_screen sint_centre
        numeral_eq_Suc)
qed

theorem foreground_centred_witness:
  "SDL_QueryTexture lib_ok (Some 6) = Some (31, 21) \<and>
   (\<exists>tiles.
     render_calls (trace (frame_two lib_ok (Some 2) (Some 4) (Some 6) initial_state)) =
       tiles @ [(Some 6, 305, 230)] \<and>
     map fst tiles = replicate 4 (Some 4))"
proof -
  have q: "SDL_QueryTexture lib_ok (Some 6) = Some (31, 21)"
    by (simp add: lib_ok_def)
  show ?thesis
    using q foreground_centred [OF q, of "Some 2" "Some 4" initial_state]
    by (auto simp add: initial_state_def c_div_def SCREEN_WIDTH_def SCREEN_HEIGHT_def
        signed_divide_int_def)
qed

section \<open>Tiling the background\<close>

text \<open>
  Claim C3 does not hold of the code. With a background 100 wide and 50 high the four
  quadrant origins are (0, 0), (100, 0), (0, 50) and (100, 50). The frame asks
  \<open>RenderTexture\<close> for (0, 0), (50, 0), (0, 0) and (50, 0): the query in \<open>main\<close> is
  given \<open>&bW\<close> twice, so \<open>bW\<close> ends as the height and \<open>bH\<close> stays 0. All four
  copies then get the same rectangle, with the height in its \<open>x\<close> field. This is
  the first frame of the run against \<open>lib_ok\<close>.
\<close>

theorem background_tiles_lib_ok:
  "SDL_QueryTexture lib_ok (Some 4) = Some (100, 50) \<and>
   take 4 (render_calls (trace (snd (main_two lib_ok 1 [])))) =
     [(Some 4, 0, 0), (Some 4, 50, 0), (Some 4, 0, 0), (Some 4, 50, 0)] \<and>
   take 4 (copies (trace (snd (main_two lib_ok 1 [])))) =
     replicate 4
       (Some 4,
        Some \<lparr>rect_x = Some 50, rect_y = Some 0, rect_w = Some 100, rect_h = None\<rparr>)"
  unfolding main_two_lib_ok loop_two_events_eq
  by (simp add: frame_two_unfold lib_ok_def query_store_def addr_bW_def addr_rect_w_def
      addr_rect_x_def numeral_eq_Suc)

end
